theory Spec2Isabelle
  imports Main "HOL-Library.Char_ord" "HOL-Library.List_Lexorder" "HOL-Library.Word"
begin

section \<open>Configuration (config/config.go)\<close>

subsection \<open>Errors\<close>

text \<open>
  Every \<^verbatim>\<open>fmt.Errorf\<close> site of config.go is one constructor; the payload is what the
  message is formatted from. \<open>file_error\<close> are the errors of \<^verbatim>\<open>validateFilename\<close>,
  which \<^verbatim>\<open>validate\<close> wraps with the prefix "config: " (or, for the data file, returns
  as they are).
\<close>

datatype file_error =
    CantStatDirectory string
  | IsNotDirectory string
  | IsNotRegularFile string
  | CantStatFile string

datatype error =
    ErrConfigRead string
  | ErrParseConfig string
  | ErrScopeRead string
  | ErrParseScope string
  | ErrNotCidr string
  | ErrNotCidrNorIp string
  | ErrNotDomainName string
  | ErrEmptyInterface
  | ErrCantOpenInterface string string
  | ErrEmptyProtocols
  | ErrTooManyProtocols
  | ErrInvalidProtocol string
  | ErrInvalidPort int
  | ErrLogFile file_error
  | ErrInvalidLogLevel string
  | ErrDataFile file_error
  | ErrEventsFile file_error
  | ErrPollInterval
  | ErrBufferSize
  | ErrFlushInterval
  | ErrFailedFile file_error

subsection \<open>The configuration value\<close>

text \<open>
  One group of the scope file: \<^verbatim>\<open>Networks\<close>, \<^verbatim>\<open>Exclude.Networks\<close> and
  \<^verbatim>\<open>Exclude.Domains\<close>, all lists of strings as the YAML gives them.
\<close>

record ScopeGroup =
  Networks :: "string list"
  Exclude_Networks :: "string list"
  Exclude_Domains :: "string list"

text \<open>
  The struct \<^verbatim>\<open>Config\<close>, its nested structs flattened into one record.
  \<^verbatim>\<open>ScopeConfig.Groups\<close> is a Go map from group name to group; it is kept as an
  association list whose order stands for the order in which one \<^verbatim>\<open>range\<close> over the map
  visits the groups (Go leaves that order open). \<^verbatim>\<open>int\<close> and \<^verbatim>\<open>time.Duration\<close>
  (nanoseconds) are integers: the code only compares them with constants.
\<close>

record Config =
  Alphasoc_Host :: string
  Alphasoc_APIKey :: string
  Network_Interface :: string
  Network_Protocols :: "string list"
  Network_Port :: int
  Log_File :: string
  Log_Level :: string
  Data_File :: string
  Scope_File :: string
  ScopeConfig_Groups :: "(string \<times> ScopeGroup) list"
  Events_File :: string
  Events_PollInterval :: int
  Queries_BufferSize :: int
  Queries_FlushInterval :: int
  Queries_Failed_File :: string

text \<open>The zero value \<^verbatim>\<open>Config{}\<close>.\<close>

definition Config_zero :: Config where
  "Config_zero =
     \<lparr>Alphasoc_Host = [], Alphasoc_APIKey = [], Network_Interface = [],
      Network_Protocols = [], Network_Port = 0, Log_File = [], Log_Level = [],
      Data_File = [], Scope_File = [], ScopeConfig_Groups = [], Events_File = [],
      Events_PollInterval = 0, Queries_BufferSize = 0, Queries_FlushInterval = 0,
      Queries_Failed_File = []\<rparr>"

text \<open>Durations of Go's \<^verbatim>\<open>time\<close> package, in nanoseconds.\<close>

definition Second :: int where
  "Second = 1000000000"

definition Minute :: int where
  "Minute = 60 * Second"

definition DefaultLocation :: string where
  "DefaultLocation = ''/etc/nfr/config.yml''"

subsection \<open>The world outside the package\<close>

text \<open>
  What \<^verbatim>\<open>os.Stat\<close> returns: an error (which is or is not \<^verbatim>\<open>os.IsNotExist\<close>), or the
  file's info, of which the code reads \<^verbatim>\<open>IsDir()\<close> and \<^verbatim>\<open>Mode().IsRegular()\<close>.
\<close>

datatype stat_result =
    StatError (isNotExist: bool) string
  | StatInfo (isDir: bool) (isRegular: bool)

text \<open>
  Modelled from the spec: a source address, which the source files do not declare. An
  address is an IPv4 address of 32 bits or an IPv6 address of 128 bits. It is also what
  \<^verbatim>\<open>net.ParseIP\<close> returns.
\<close>

datatype ip = IPv4 "32 word" | IPv6 "128 word"

text \<open>
  Modelled from the spec: a network in CIDR form ("set of CIDR"), which the source files
  do not declare: a base address and the number of leading bits that count. It is also
  the network \<^verbatim>\<open>net.ParseCIDR\<close> returns.
\<close>

datatype cidr = CIDR ip nat

text \<open>An IPv4 address from its four bytes, for the examples.\<close>

definition ipv4 :: "nat \<Rightarrow> nat \<Rightarrow> nat \<Rightarrow> nat \<Rightarrow> ip" where
  "ipv4 a b c d = IPv4 (of_nat (((a * 256 + b) * 256 + c) * 256 + d))"

text \<open>
  Everything config.go calls that is not in the package: the file system, the network
  interfaces, the YAML decoder, the parsers of Go's \<^verbatim>\<open>net\<close> package, \<^verbatim>\<open>path.Dir\<close>
  and \<^verbatim>\<open>path.Join\<close>, the operating system's name and environment, and
  \<^verbatim>\<open>utils.IsDomainName\<close>. They are parameters of the model: every theorem holds for
  all of them.

  \<^item> \<open>readFile\<close>: \<^verbatim>\<open>ioutil.ReadFile\<close>, the error's text or the content;
  \<^item> \<open>osStat\<close>: \<^verbatim>\<open>os.Stat\<close>;
  \<^item> \<open>interfaceByName\<close>: whether \<^verbatim>\<open>net.InterfaceByName\<close> fails, with the error's text;
  \<^item> \<open>yamlUnmarshalConfig\<close>: \<^verbatim>\<open>yaml.Unmarshal\<close> into a zero \<^verbatim>\<open>Config\<close>;
  \<^item> \<open>yamlUnmarshalScope\<close>: \<^verbatim>\<open>yaml.Unmarshal\<close> into \<^verbatim>\<open>cfg.ScopeConfig\<close>, given the
    groups the field holds before the call; it returns the groups the field holds after
    the call and the decoder's error, if any;
  \<^item> \<open>parseCIDR\<close>: \<^verbatim>\<open>net.ParseCIDR\<close>, the network it returns, \<open>None\<close> when it
    returns an error;
  \<^item> \<open>parseIP\<close>: \<^verbatim>\<open>net.ParseIP\<close>, the address it returns, \<open>None\<close> when it returns
    \<^verbatim>\<open>nil\<close>;
  \<^item> \<open>IsDomainName\<close>: \<^verbatim>\<open>utils.IsDomainName\<close>.
\<close>

record world =
  readFile :: "string \<Rightarrow> string + string"
  osStat :: "string \<Rightarrow> stat_result"
  interfaceByName :: "string \<Rightarrow> string option"
  yamlUnmarshalConfig :: "string \<Rightarrow> string + Config"
  yamlUnmarshalScope ::
    "string \<Rightarrow> (string \<times> ScopeGroup) list \<Rightarrow> (string \<times> ScopeGroup) list \<times> string option"
  parseCIDR :: "string \<Rightarrow> cidr option"
  parseIP :: "string \<Rightarrow> ip option"
  IsDomainName :: "string \<Rightarrow> bool"
  pathDir :: "string \<Rightarrow> string"
  pathJoin :: "string \<Rightarrow> string \<Rightarrow> string"
  GOOS :: string
  osGetenv :: "string \<Rightarrow> string"

subsection \<open>Scope configuration\<close>

text \<open>
  \<^verbatim>\<open>strings.TrimPrefix(s, p)\<close> of Go's library: \<open>s\<close> without the leading \<open>p\<close>, or
  \<open>s\<close> itself when it does not start with \<open>p\<close>.
\<close>

definition TrimPrefix :: "string \<Rightarrow> string \<Rightarrow> string" where
  "TrimPrefix s p = (if take (length p) s = p then drop (length p) s else s)"

text \<open>
  The three loops of \<^verbatim>\<open>validateScopeConfig\<close> over one group: each returns the error of
  the first entry that fails its check.
\<close>

fun check_networks :: "world \<Rightarrow> string list \<Rightarrow> error option" where
  "check_networks w [] = None"
| "check_networks w (n # ns) =
     (if parseCIDR w n = None then Some (ErrNotCidr n) else check_networks w ns)"

fun check_exclude_networks :: "world \<Rightarrow> string list \<Rightarrow> error option" where
  "check_exclude_networks w [] = None"
| "check_exclude_networks w (n # ns) =
     (if parseCIDR w n = None \<and> parseIP w n = None then Some (ErrNotCidrNorIp n)
      else check_exclude_networks w ns)"

fun check_exclude_domains :: "world \<Rightarrow> string list \<Rightarrow> error option" where
  "check_exclude_domains w [] = None"
| "check_exclude_domains w (d # ds) =
     (if \<not> IsDomainName w d \<and> \<not> IsDomainName w (TrimPrefix d ''*.'')
      then Some (ErrNotDomainName d)
      else check_exclude_domains w ds)"

definition validateGroup :: "world \<Rightarrow> ScopeGroup \<Rightarrow> error option" where
  "validateGroup w g =
     (case check_networks w (Networks g) of
        Some e \<Rightarrow> Some e
      | None \<Rightarrow>
          (case check_exclude_networks w (Exclude_Networks g) of
             Some e \<Rightarrow> Some e
           | None \<Rightarrow> check_exclude_domains w (Exclude_Domains g)))"

text \<open>The outer loop of \<^verbatim>\<open>validateScopeConfig\<close>, over the groups.\<close>

fun validateGroups :: "world \<Rightarrow> (string \<times> ScopeGroup) list \<Rightarrow> error option" where
  "validateGroups w [] = None"
| "validateGroups w ((name, g) # gs) =
     (case validateGroup w g of Some e \<Rightarrow> Some e | None \<Rightarrow> validateGroups w gs)"

definition validateScopeConfig :: "world \<Rightarrow> Config \<Rightarrow> error option" where
  "validateScopeConfig w cfg = validateGroups w (ScopeConfig_Groups cfg)"

text \<open>
  The constant \<^verbatim>\<open>defaultScope\<close>: the YAML text of config.go, lines 333 to 348, character
  for character (a raw string literal: it starts with a line break).
\<close>

definition dquote :: "string \<Rightarrow> string" where
  "dquote s = CHR 0x22 # s @ [CHR 0x22]"

definition defaultScope :: string where
  "defaultScope = concat (map (\<lambda>l. l @ [CHR 0x0A])
     ['''',
      ''groups:'',
      ''  default:'',
      ''    networks:'',
      ''    - 10.0.0.0/8'',
      ''    - 192.168.0.0/16'',
      ''    - 172.16.0.0/12'',
      ''    - fc00::/7'',
      ''    exclude:'',
      ''      domains:'',
      ''       - '' @ dquote ''*.arpa'',
      ''       - '' @ dquote ''*.lan'',
      ''       - '' @ dquote ''*.local'',
      ''       - '' @ dquote ''*.internal'',
      ''      networks:''])"

text \<open>
  The groups that YAML document denotes: one group, \<open>default\<close>, with four networks, four
  excluded domains and no excluded network (the key \<^verbatim>\<open>networks:\<close> under \<^verbatim>\<open>exclude:\<close> has
  no value).
\<close>

definition defaultScopeGroups :: "(string \<times> ScopeGroup) list" where
  "defaultScopeGroups =
     [(''default'',
       \<lparr>Networks = [''10.0.0.0/8'', ''192.168.0.0/16'', ''172.16.0.0/12'', ''fc00::/7''],
        Exclude_Networks = [],
        Exclude_Domains = [''*.arpa'', ''*.lan'', ''*.local'', ''*.internal'']\<rparr>)]"

text \<open>
  \<^verbatim>\<open>loadScopeConfig\<close>: the configuration as the call leaves it, and the error it returns.
  The content is the scope file's when \<^verbatim>\<open>Scope.File\<close> is set, \<^verbatim>\<open>defaultScope\<close>
  otherwise; the decoder writes into \<^verbatim>\<open>cfg.ScopeConfig\<close>; validation runs last.
\<close>

definition loadScopeConfig :: "world \<Rightarrow> Config \<Rightarrow> Config \<times> error option" where
  "loadScopeConfig w cfg =
     (case (if Scope_File cfg \<noteq> [] then readFile w (Scope_File cfg) else Inr defaultScope) of
        Inl e \<Rightarrow> (cfg, Some (ErrScopeRead e))
      | Inr content \<Rightarrow>
          (case yamlUnmarshalScope w content (ScopeConfig_Groups cfg) of
             (groups, Some e) \<Rightarrow> (cfg\<lparr>ScopeConfig_Groups := groups\<rparr>, Some (ErrParseScope e))
           | (groups, None) \<Rightarrow>
               (cfg\<lparr>ScopeConfig_Groups := groups\<rparr>,
                validateScopeConfig w (cfg\<lparr>ScopeConfig_Groups := groups\<rparr>))))"

subsection \<open>Defaults\<close>

text \<open>
  \<^verbatim>\<open>setDefaults\<close>: each statement \<^verbatim>\<open>if cfg.F == zero { cfg.F = d }\<close> reads and writes
  the one field \<open>F\<close>, so the statements are independent of each other and each is the
  update of \<open>F\<close> to \<open>if F = zero then d else F\<close>. The last statement calls
  \<^verbatim>\<open>loadScopeConfig\<close> and drops its error.
\<close>

definition setDefaults :: "world \<Rightarrow> Config \<Rightarrow> Config" where
  "setDefaults w cfg =
     fst (loadScopeConfig w
       (cfg\<lparr>Alphasoc_Host :=
               (if Alphasoc_Host cfg = [] then ''https://api.alphasoc.net''
                else Alphasoc_Host cfg),
            Network_Protocols :=
               (if length (Network_Protocols cfg) = 0 then [''udp'']
                else Network_Protocols cfg),
            Network_Port := (if Network_Port cfg = 0 then 53 else Network_Port cfg),
            Events_File := (if Events_File cfg = [] then ''stderr'' else Events_File cfg),
            Log_File := (if Log_File cfg = [] then ''stdout'' else Log_File cfg),
            Log_Level := (if Log_Level cfg = [] then ''info'' else Log_Level cfg),
            Data_File :=
               (if Data_File cfg = []
                then (if GOOS w = ''windows''
                      then pathJoin w (osGetenv w ''APPDATA'') ''nfr.data''
                      else pathJoin w ''/run'' ''nfr.data'')
                else Data_File cfg),
            Events_PollInterval :=
               (if Events_PollInterval cfg = 0 then 5 * Minute else Events_PollInterval cfg),
            Queries_BufferSize :=
               (if Queries_BufferSize cfg = 0 then 65535 else Queries_BufferSize cfg),
            Queries_FlushInterval :=
               (if Queries_FlushInterval cfg = 0 then 30 * Second
                else Queries_FlushInterval cfg)\<rparr>))"

subsection \<open>Validation\<close>

text \<open>\<^verbatim>\<open>validateFilename\<close>: whether the file can be created.\<close>

definition validateFilename :: "world \<Rightarrow> string \<Rightarrow> bool \<Rightarrow> file_error option" where
  "validateFilename w file noFileOutput =
     (if noFileOutput \<and> (file = ''stdout'' \<or> file = ''stderr'') then None
      else
        (case osStat w (pathDir w file) of
           StatError ne e \<Rightarrow> Some (CantStatDirectory (pathDir w file))
         | StatInfo d r \<Rightarrow>
             if \<not> d then Some (IsNotDirectory (pathDir w file))
             else
               (case osStat w file of
                  StatInfo d' r' \<Rightarrow> if \<not> r' then Some (IsNotRegularFile file) else None
                | StatError ne e \<Rightarrow> if \<not> ne then Some (CantStatFile file) else None)))"

text \<open>
  \<^verbatim>\<open>validate\<close>: the checks in the order of the code; the first that fails gives the
  error, \<open>None\<close> is Go's \<^verbatim>\<open>nil\<close>.
\<close>

definition validate :: "world \<Rightarrow> Config \<Rightarrow> error option" where
  "validate w cfg =
     (if Network_Interface cfg = [] then Some ErrEmptyInterface
      else
        (case interfaceByName w (Network_Interface cfg) of
           Some e \<Rightarrow> Some (ErrCantOpenInterface (Network_Interface cfg) e)
         | None \<Rightarrow>
      if length (Network_Protocols cfg) = 0 then Some ErrEmptyProtocols
      else if length (Network_Protocols cfg) > 2 then Some ErrTooManyProtocols
      else
        (case find (\<lambda>proto. proto \<noteq> ''udp'' \<and> proto \<noteq> ''tcp'') (Network_Protocols cfg) of
           Some proto \<Rightarrow> Some (ErrInvalidProtocol proto)
         | None \<Rightarrow>
        if Network_Port cfg < 0 \<or> Network_Port cfg > 65535
          then Some (ErrInvalidPort (Network_Port cfg))
        else
        (case validateFilename w (Log_File cfg) True of
           Some e \<Rightarrow> Some (ErrLogFile e)
         | None \<Rightarrow>
        if Log_Level cfg \<noteq> ''debug'' \<and> Log_Level cfg \<noteq> ''info'' \<and>
           Log_Level cfg \<noteq> ''warn'' \<and> Log_Level cfg \<noteq> ''error''
          then Some (ErrInvalidLogLevel (Log_Level cfg))
        else
        (case validateFilename w (Data_File cfg) False of
           Some e \<Rightarrow> Some (ErrDataFile e)
         | None \<Rightarrow>
        (case (if Events_File cfg \<noteq> [] then validateFilename w (Events_File cfg) True
               else None) of
           Some e \<Rightarrow> Some (ErrEventsFile e)
         | None \<Rightarrow>
        if Events_PollInterval cfg < 5 * Second then Some ErrPollInterval
        else if Queries_BufferSize cfg < 64 then Some ErrBufferSize
        else if Queries_FlushInterval cfg < 5 * Second then Some ErrFlushInterval
        else
        (case (if Queries_Failed_File cfg \<noteq> []
               then validateFilename w (Queries_Failed_File cfg) False else None) of
           Some e \<Rightarrow> Some (ErrFailedFile e)
         | None \<Rightarrow> None)))))))"

subsection \<open>Reading a configuration\<close>

text \<open>
  \<^verbatim>\<open>Read\<close>: the configuration returned (\<open>None\<close> is the \<^verbatim>\<open>nil\<close> pointer) and the error.
  The decoder fills a zero \<^verbatim>\<open>Config\<close>; the field \<^verbatim>\<open>ScopeConfig\<close> is tagged
  \<^verbatim>\<open>yaml:"-"\<close>, so it keeps its zero value whatever the decoder reads.
\<close>

definition Read :: "world \<Rightarrow> string \<Rightarrow> Config option \<times> error option" where
  "Read w file =
     (case readFile w file of
        Inl e \<Rightarrow> (None, Some (ErrConfigRead e))
      | Inr content \<Rightarrow>
          (case yamlUnmarshalConfig w content of
             Inl e \<Rightarrow> (None, Some (ErrParseConfig e))
           | Inr decoded \<Rightarrow>
               (case loadScopeConfig w (decoded\<lparr>ScopeConfig_Groups := []\<rparr>) of
                  (cfg1, Some e) \<Rightarrow> (None, Some e)
                | (cfg1, None) \<Rightarrow>
                    (let cfg2 = setDefaults w cfg1;
                         cfg3 = cfg2\<lparr>Network_Protocols := sort (Network_Protocols cfg2)\<rparr>
                     in (Some cfg3, validate w cfg3)))))"

text \<open>
  \<^verbatim>\<open>New\<close>: the given file, else the file at the default location when \<^verbatim>\<open>os.Stat\<close>
  finds it, else the defaults alone with a \<^verbatim>\<open>nil\<close> error.
\<close>

definition New :: "world \<Rightarrow> string \<Rightarrow> Config option \<times> error option" where
  "New w file =
     (if file \<noteq> [] then Read w file
      else
        (case osStat w DefaultLocation of
           StatInfo d r \<Rightarrow> Read w DefaultLocation
         | StatError ne e \<Rightarrow> (Some (setDefaults w Config_zero), None)))"

section \<open>The block form of YAML the scope document is written in\<close>

text \<open>
  The decoder (gopkg.in/yaml.v2) is a library and not among the source files. What
  follows reads the small part of YAML that the constant \<^verbatim>\<open>defaultScope\<close> and the scope
  files are written in, after the YAML specification: block mappings of keys \<open>key:\<close>
  nested by indentation, and block sequences of scalars \<open>- value\<close>, plain or in double
  quotes. A document with anything else is not read (the result is \<open>None\<close>), so the reader
  says nothing about it.
\<close>

fun splitLines :: "string \<Rightarrow> string list" where
  "splitLines [] = [[]]"
| "splitLines (c # cs) =
     (if c = CHR 0x0A then [] # splitLines cs
      else (case splitLines cs of [] \<Rightarrow> [[c]] | l # ls \<Rightarrow> (c # l) # ls))"

text \<open>The indentation of a line, and the line without it and without trailing spaces.\<close>

definition lineIndent :: "string \<Rightarrow> nat" where
  "lineIndent l = length (takeWhile (\<lambda>c. c = CHR '' '') l)"

definition lineBody :: "string \<Rightarrow> string" where
  "lineBody l =
     rev (dropWhile (\<lambda>c. c = CHR '' '') (rev (dropWhile (\<lambda>c. c = CHR '' '') l)))"

definition isLetter :: "char \<Rightarrow> bool" where
  "isLetter c = (c \<in> set ''abcdefghijklmnopqrstuvwxyzABCDEFGHIJKLMNOPQRSTUVWXYZ'')"

definition isDigit :: "char \<Rightarrow> bool" where
  "isDigit c = (c \<in> set ''0123456789'')"

text \<open>
  A key: letters, digits, \<open>_\<close> and \<open>-\<close>, starting with a letter. A plain scalar:
  letters, digits and \<open>. / : - _\<close>, starting with a letter or a digit, not ending
  with a colon (that would be a key) and not a spelling of null. A scalar in double
  quotes: the same characters and \<open>*\<close>, with no escape. Every scalar is read as the
  string it is written as, which is what the decoder stores in a field of type string.
\<close>

definition isKeyName :: "string \<Rightarrow> bool" where
  "isKeyName k =
     (case k of
        [] \<Rightarrow> False
      | c # cs \<Rightarrow> isLetter c \<and> list_all (\<lambda>x. isLetter x \<or> isDigit x \<or> x \<in> set ''_-'') cs)"

definition isPlainScalar :: "string \<Rightarrow> bool" where
  "isPlainScalar v =
     (case v of
        [] \<Rightarrow> False
      | c # cs \<Rightarrow>
          (isLetter c \<or> isDigit c)
          \<and> list_all (\<lambda>x. isLetter x \<or> isDigit x \<or> x \<in> set ''./:-_'') cs
          \<and> last v \<noteq> CHR '':''
          \<and> v \<notin> set [''null'', ''Null'', ''NULL''])"

definition readScalar :: "string \<Rightarrow> string option" where
  "readScalar v =
     (if 2 \<le> length v \<and> hd v = CHR 0x22 \<and> last v = CHR 0x22
      then (if list_all (\<lambda>x. isLetter x \<or> isDigit x \<or> x \<in> set ''./:-_*'') (butlast (tl v))
            then Some (butlast (tl v)) else None)
      else (if isPlainScalar v then Some v else None))"

text \<open>
  What a line is: blank or a comment; an entry \<open>- value\<close> of a sequence; a key \<open>key:\<close>
  with its value on the lines below; or something else.
\<close>

datatype yaml_line = Blank | Item string | Key string | Other

definition classifyLine :: "string \<Rightarrow> yaml_line" where
  "classifyLine b =
     (if b = [] \<or> hd b = CHR ''#'' then Blank
      else if take 2 b = ''- '' then
        (case readScalar (drop 2 b) of Some v \<Rightarrow> Item v | None \<Rightarrow> Other)
      else if last b = CHR '':'' \<and> isKeyName (butlast b) then Key (butlast b)
      else Other)"

text \<open>
  The keys that are open while the lines are read, innermost first: the indentation of
  the key, its name, and what it holds so far: nothing, a sequence or a mapping, with the
  indentation of the entries.
\<close>

datatype yaml_child = NoChild | SeqChild nat | MapChild nat

type_synonym yaml_stack = "(nat \<times> string \<times> yaml_child) list"

text \<open>
  What the document says, in the order of its lines: a key was opened at a path of keys,
  or a sequence under a path got an element.
\<close>

datatype yaml_entry = Opened "string list" | Element "string list" string

definition keyPath :: "yaml_stack \<Rightarrow> string list" where
  "keyPath st = rev (map (\<lambda>x. fst (snd x)) st)"

text \<open>
  One line. A key at indentation \<open>n\<close> closes the open keys indented as much or more;
  it belongs to the mapping of the key that is then innermost, whose entries must all be
  at \<open>n\<close> (at the top, at 0). An entry of a sequence at \<open>n\<close> closes the open keys
  indented more; it belongs to the sequence of the key that is then innermost, whose
  entries must all be at \<open>n\<close>. A key holds a mapping or a sequence, not both.
\<close>

definition readLine ::
  "string \<Rightarrow> yaml_stack \<times> yaml_entry list \<Rightarrow> (yaml_stack \<times> yaml_entry list) option" where
  "readLine l state =
     (case state of
        (st, es) \<Rightarrow>
          (case classifyLine (lineBody l) of
             Blank \<Rightarrow> Some (st, es)
           | Other \<Rightarrow> None
           | Key k \<Rightarrow>
               (case dropWhile (\<lambda>x. lineIndent l \<le> fst x) st of
                  [] \<Rightarrow>
                    if lineIndent l = 0
                    then Some ([(0, k, NoChild)], es @ [Opened [k]]) else None
                | (m, pk, ch) # rest \<Rightarrow>
                    if ch = NoChild \<or> ch = MapChild (lineIndent l)
                    then Some ((lineIndent l, k, NoChild) # (m, pk, MapChild (lineIndent l)) # rest,
                               es @ [Opened (keyPath ((m, pk, ch) # rest) @ [k])])
                    else None)
           | Item v \<Rightarrow>
               (case dropWhile (\<lambda>x. lineIndent l < fst x) st of
                  [] \<Rightarrow> None
                | (m, pk, ch) # rest \<Rightarrow>
                    if ch = NoChild \<or> ch = SeqChild (lineIndent l)
                    then Some ((m, pk, SeqChild (lineIndent l)) # rest,
                               es @ [Element (keyPath ((m, pk, ch) # rest)) v])
                    else None)))"

fun readLines ::
  "string list \<Rightarrow> yaml_stack \<times> yaml_entry list \<Rightarrow> (yaml_stack \<times> yaml_entry list) option" where
  "readLines [] state = Some state"
| "readLines (l # ls) state =
     (case readLine l state of None \<Rightarrow> None | Some state' \<Rightarrow> readLines ls state')"

text \<open>
  The entries the struct \<^verbatim>\<open>ScopeConfig\<close> has a field for: \<open>groups\<close>, a group name under
  it, \<open>networks\<close> and \<open>exclude\<close> under a group, \<open>domains\<close> and \<open>networks\<close> under
  \<open>exclude\<close>, and elements under the three lists.
\<close>

fun scopeEntry :: "yaml_entry \<Rightarrow> bool" where
  "scopeEntry (Opened p) =
     (case p of
        [a] \<Rightarrow> a = ''groups''
      | [a, g] \<Rightarrow> a = ''groups''
      | [a, g, k] \<Rightarrow> a = ''groups'' \<and> (k = ''networks'' \<or> k = ''exclude'')
      | [a, g, k, j] \<Rightarrow>
          a = ''groups'' \<and> k = ''exclude'' \<and> (j = ''domains'' \<or> j = ''networks'')
      | _ \<Rightarrow> False)"
| "scopeEntry (Element p v) =
     (case p of
        [a, g, k] \<Rightarrow> a = ''groups'' \<and> k = ''networks''
      | [a, g, k, j] \<Rightarrow>
          a = ''groups'' \<and> k = ''exclude'' \<and> (j = ''domains'' \<or> j = ''networks'')
      | _ \<Rightarrow> False)"

fun openedPaths :: "yaml_entry list \<Rightarrow> string list list" where
  "openedPaths [] = []"
| "openedPaths (Opened p # es) = p # openedPaths es"
| "openedPaths (Element p v # es) = openedPaths es"

fun elementsAt :: "string list \<Rightarrow> yaml_entry list \<Rightarrow> string list" where
  "elementsAt p [] = []"
| "elementsAt p (Opened q # es) = elementsAt p es"
| "elementsAt p (Element q v # es) = (if q = p then v # elementsAt p es else elementsAt p es)"

fun groupNames :: "yaml_entry list \<Rightarrow> string list" where
  "groupNames [] = []"
| "groupNames (Opened p # es) =
     (case p of [a, g] \<Rightarrow> g # groupNames es | _ \<Rightarrow> groupNames es)"
| "groupNames (Element p v # es) = groupNames es"

text \<open>
  The groups a scope document denotes: the document is read line by line; every entry
  must be one the struct has a field for, and no key may come twice; each group gets the
  elements of its three lists, in the order of the document.
\<close>

definition scopeOfYAML :: "string \<Rightarrow> (string \<times> ScopeGroup) list option" where
  "scopeOfYAML text =
     (case readLines (splitLines text) ([], []) of
        None \<Rightarrow> None
      | Some (st, es) \<Rightarrow>
          if list_all scopeEntry es \<and> distinct (openedPaths es)
          then Some (map (\<lambda>g. (g,
                 \<lparr>Networks = elementsAt [''groups'', g, ''networks''] es,
                  Exclude_Networks = elementsAt [''groups'', g, ''exclude'', ''networks''] es,
                  Exclude_Domains = elementsAt [''groups'', g, ''exclude'', ''domains''] es\<rparr>))
               (groupNames es))
          else None)"

section \<open>The scope resolver (specification, sections 3 and 4.1)\<close>

text \<open>
  The code that builds the resolver and evaluates the scope is not among the source
  files; the definitions of this section follow the words of the specification. The
  addresses and the networks are declared with the parsers, above.
\<close>

text \<open>
  Modelled from the spec: an entry of a group's exclude networks ("set of CIDR or IP"),
  which the source files do not declare.
\<close>

datatype exclude_net = ExcludeIP ip | ExcludeCIDR cidr

text \<open>
  Modelled from the spec: a domain pattern, which the source files do not declare: "A
  Pattern is either an exact lowercase domain or a wildcard of the form *.suffix"; the
  wildcard carries its suffix.
\<close>

datatype pattern = Exact string | Wildcard string

text \<open>
  Modelled from the spec: the group of the data model, which the source files do not
  declare: "name, inclusionNetworks, excludeNetworks, excludeDomainPatterns". The sets are
  finite and kept as lists.
\<close>

record Group =
  groupName :: string
  inclusionNetworks :: "cidr list"
  excludeNetworks :: "exclude_net list"
  excludeDomainPatterns :: "pattern list"

text \<open>
  Modelled from the spec: containment of an address in a CIDR network, whose code is not
  among the source files: the address is of the network's family and agrees with the base
  address on the leading bits.
\<close>

fun cidr_contains :: "cidr \<Rightarrow> ip \<Rightarrow> bool" where
  "cidr_contains (CIDR (IPv4 base) n) (IPv4 a) =
     (n \<le> 32 \<and> drop_bit (32 - n) a = drop_bit (32 - n) base)"
| "cidr_contains (CIDR (IPv6 base) n) (IPv6 a) =
     (n \<le> 128 \<and> drop_bit (128 - n) a = drop_bit (128 - n) base)"
| "cidr_contains (CIDR (IPv4 base) n) (IPv6 a) = False"
| "cidr_contains (CIDR (IPv6 base) n) (IPv4 a) = False"

text \<open>
  Modelled from the spec: the match of an exclude network entry, whose code is not among
  the source files: "exact-IP or CIDR match".
\<close>

fun exclude_matches :: "exclude_net \<Rightarrow> ip \<Rightarrow> bool" where
  "exclude_matches (ExcludeIP b) a = (a = b)"
| "exclude_matches (ExcludeCIDR c) a = cidr_contains c a"

text \<open>
  Modelled from the spec: lower case of an ASCII character, for "identical
  (case-insensitive) strings"; the comparison's code is not among the source files.
\<close>

definition toLowerASCII :: "char \<Rightarrow> char" where
  "toLowerASCII c =
     (case map_of (zip ''ABCDEFGHIJKLMNOPQRSTUVWXYZ'' ''abcdefghijklmnopqrstuvwxyz'') c of
        Some l \<Rightarrow> l
      | None \<Rightarrow> c)"

text \<open>
  Modelled from the spec: whether a string "ends with" another; the matcher's code is
  not among the source files.
\<close>

definition endsWith :: "string \<Rightarrow> string \<Rightarrow> bool" where
  "endsWith s e = (length e \<le> length s \<and> drop (length s - length e) s = e)"

text \<open>
  Modelled from the spec: the domain match rule, whose code is not among the source
  files: "an exact pattern matches only identical (case-insensitive) strings; a wildcard
  pattern *.suffix matches fqdn if fqdn == suffix or fqdn ends with "." + suffix".
\<close>

fun matchDomain :: "pattern \<Rightarrow> string \<Rightarrow> bool" where
  "matchDomain (Exact d) fqdn = (map toLowerASCII fqdn = map toLowerASCII d)"
| "matchDomain (Wildcard suffix) fqdn = (fqdn = suffix \<or> endsWith fqdn (CHR ''.'' # suffix))"

text \<open>
  Modelled from the spec: how an entry of the scope file is read as a pattern, whose code
  is not among the source files: an entry "of the form *.suffix" is the wildcard of that
  suffix, any other entry is an exact pattern.
\<close>

fun parsePattern :: "string \<Rightarrow> pattern" where
  "parsePattern (a # b # s) =
     (if a = CHR ''*'' \<and> b = CHR ''.'' then Wildcard s else Exact (a # b # s))"
| "parsePattern s = Exact s"

text \<open>
  Modelled from the spec: the decision of one group, whose code is not among the source
  files: "sourceIP is contained in one of g.inclusionNetworks, AND sourceIP is not
  contained in any of g.excludeNetworks (exact-IP or CIDR match), AND fqdn does not match
  any pattern in g.excludeDomainPatterns".
\<close>

definition groupInScope :: "Group \<Rightarrow> ip \<Rightarrow> string \<Rightarrow> bool" where
  "groupInScope g sourceIP fqdn =
     (list_ex (\<lambda>n. cidr_contains n sourceIP) (inclusionNetworks g)
      \<and> \<not> list_ex (\<lambda>e. exclude_matches e sourceIP) (excludeNetworks g)
      \<and> \<not> list_ex (\<lambda>p. matchDomain p fqdn) (excludeDomainPatterns g))"

text \<open>
  Modelled from the spec: \<^verbatim>\<open>IsInScope\<close>, whose code is not among the source files:
  "Decisions are evaluated independently per group and combined with logical OR across
  groups". The groups of the scope are visited one after the other, in the order of the
  list; with no group left the query is out of scope.
\<close>

fun IsInScope :: "Group list \<Rightarrow> ip \<Rightarrow> string \<Rightarrow> bool" where
  "IsInScope [] sourceIP fqdn = False"
| "IsInScope (g # gs) sourceIP fqdn =
     (if groupInScope g sourceIP fqdn then True else IsInScope gs sourceIP fqdn)"

text \<open>
  Modelled from the spec: the construction of the resolver from the groups of the scope
  configuration, whose code is not among the source files: the resolver is "built once
  from a validated scope configuration", and "Construction-time failures (malformed
  CIDR/IP/domain) are configuration errors". Each entry is read with the parser that
  validation calls, in the order of validation; the first entry that cannot be read is
  the error. An exclude network is a CIDR when it parses as one, else a single address.
\<close>

fun buildNetworks :: "world \<Rightarrow> string list \<Rightarrow> error + cidr list" where
  "buildNetworks w [] = Inr []"
| "buildNetworks w (n # ns) =
     (case parseCIDR w n of
        None \<Rightarrow> Inl (ErrNotCidr n)
      | Some c \<Rightarrow> (case buildNetworks w ns of Inl e \<Rightarrow> Inl e | Inr cs \<Rightarrow> Inr (c # cs)))"

fun buildExcludeNetworks :: "world \<Rightarrow> string list \<Rightarrow> error + exclude_net list" where
  "buildExcludeNetworks w [] = Inr []"
| "buildExcludeNetworks w (n # ns) =
     (case (case parseCIDR w n of
              Some c \<Rightarrow> Some (ExcludeCIDR c)
            | None \<Rightarrow> (case parseIP w n of Some a \<Rightarrow> Some (ExcludeIP a) | None \<Rightarrow> None)) of
        None \<Rightarrow> Inl (ErrNotCidrNorIp n)
      | Some x \<Rightarrow>
          (case buildExcludeNetworks w ns of Inl e \<Rightarrow> Inl e | Inr xs \<Rightarrow> Inr (x # xs)))"

fun buildPatterns :: "world \<Rightarrow> string list \<Rightarrow> error + pattern list" where
  "buildPatterns w [] = Inr []"
| "buildPatterns w (d # ds) =
     (if \<not> IsDomainName w d \<and> \<not> IsDomainName w (TrimPrefix d ''*.'')
      then Inl (ErrNotDomainName d)
      else (case buildPatterns w ds of Inl e \<Rightarrow> Inl e | Inr ps \<Rightarrow> Inr (parsePattern d # ps)))"

definition buildGroup :: "world \<Rightarrow> string \<Rightarrow> ScopeGroup \<Rightarrow> error + Group" where
  "buildGroup w name g =
     (case buildNetworks w (Networks g) of
        Inl e \<Rightarrow> Inl e
      | Inr cs \<Rightarrow>
          (case buildExcludeNetworks w (Exclude_Networks g) of
             Inl e \<Rightarrow> Inl e
           | Inr xs \<Rightarrow>
               (case buildPatterns w (Exclude_Domains g) of
                  Inl e \<Rightarrow> Inl e
                | Inr ps \<Rightarrow>
                    Inr \<lparr>groupName = name, inclusionNetworks = cs, excludeNetworks = xs,
                         excludeDomainPatterns = ps\<rparr>)))"

fun buildScopeResolver :: "world \<Rightarrow> (string \<times> ScopeGroup) list \<Rightarrow> error + Group list" where
  "buildScopeResolver w [] = Inr []"
| "buildScopeResolver w ((name, g) # gs) =
     (case buildGroup w name g of
        Inl e \<Rightarrow> Inl e
      | Inr grp \<Rightarrow>
          (case buildScopeResolver w gs of Inl e \<Rightarrow> Inl e | Inr grps \<Rightarrow> Inr (grp # grps)))"

text \<open>
  Modelled from the spec: the decision for a query taken on the scope configuration as
  it is written, whose code is not among the source files: the entries are read, and the
  resolver they give is evaluated. An entry that cannot be read is the only error there
  is: "the resolver, once built, cannot fail".
\<close>

definition decideScope ::
  "world \<Rightarrow> (string \<times> ScopeGroup) list \<Rightarrow> ip \<Rightarrow> string \<Rightarrow> error + bool" where
  "decideScope w groups sourceIP fqdn =
     (case buildScopeResolver w groups of
        Inl e \<Rightarrow> Inl e
      | Inr resolver \<Rightarrow> Inr (IsInScope resolver sourceIP fqdn))"

section \<open>The query buffer and the flusher (specification, sections 3, 4.2 and 4.3)\<close>

text \<open>
  The code of the buffer, the flusher and the store of failed batches is not among the
  source files; the definitions of this section follow the words of the specification.
\<close>

text \<open>
  Modelled from the spec: the query of the data model, which the source files do not
  declare: "timestamp, sourceIP, recordType, fqdn".
\<close>

record Query =
  query_timestamp :: int
  query_sourceIP :: ip
  query_recordType :: string
  query_fqdn :: string

text \<open>
  Modelled from the spec: a batch, which the source files do not declare: an "ordered
  sequence of Query".
\<close>

type_synonym QueryBatch = "Query list"

text \<open>
  Modelled from the spec: the query buffer, whose code is not among the source files:
  the queries accumulated so far, oldest first, and the capacity (\<^verbatim>\<open>BufferSize\<close>).
\<close>

record QueryBuffer =
  buffered :: "Query list"
  capacity :: nat

text \<open>
  Modelled from the spec: \<^verbatim>\<open>Push\<close>, whose code is not among the source files: "Push
  appends under exclusive access; if the resulting length reaches capacity, it signals an
  immediate flush". The result is the buffer after the push and the signal.
\<close>

definition Push :: "Query \<Rightarrow> QueryBuffer \<Rightarrow> QueryBuffer \<times> bool" where
  "Push q b =
     (b\<lparr>buffered := buffered b @ [q]\<rparr>, capacity b \<le> length (buffered b @ [q]))"

text \<open>
  Modelled from the spec: \<^verbatim>\<open>SwapAndDrain\<close>, whose code is not among the source files:
  it "replaces the active buffer with a fresh empty one and returns the drained contents
  as an immutable batch".
\<close>

definition SwapAndDrain :: "QueryBuffer \<Rightarrow> QueryBuffer \<times> QueryBatch" where
  "SwapAndDrain b = (b\<lparr>buffered := []\<rparr>, buffered b)"

text \<open>
  Modelled from the spec: a run of pushes with no timer in between, whose code is not
  among the source files: each query is pushed, and a push that signals is followed at
  once by the flush, which drains the buffer. The result is the buffer after the run and
  the batches flushed, in the order of the flushes.
\<close>

fun pushAll :: "QueryBuffer \<Rightarrow> Query list \<Rightarrow> QueryBuffer \<times> QueryBatch list" where
  "pushAll b [] = (b, [])"
| "pushAll b (q # qs) =
     (case Push q b of
        (b1, True) \<Rightarrow>
          (case SwapAndDrain b1 of
             (b2, batch) \<Rightarrow> (case pushAll b2 qs of (b3, batches) \<Rightarrow> (b3, batch # batches)))
      | (b1, False) \<Rightarrow> pushAll b1 qs)"










section \<open>A sample world\<close>

text \<open>
  One concrete world, for the examples: a few configuration files and what the decoder
  reads in them, two scope files, which the decoder reads as block YAML, one network
  interface \<open>eth0\<close>, the directory \<open>/run\<close>, and parsers that read the entries the
  examples use. No file exists at \<open>DefaultLocation\<close>.
\<close>

text \<open>
  Two scope files: one with an inclusion network, an excluded network, an excluded
  address, a wildcard domain and an exact domain; one whose network is an address and no
  CIDR.
\<close>

definition sample_scope_text :: string where
  "sample_scope_text = concat (map (\<lambda>l. l @ [CHR 0x0A])
     [''groups:'',
      ''  private_network:'',
      ''    networks:'',
      ''      - 10.0.0.0/8'',
      ''    exclude:'',
      ''      networks:'',
      ''        - 10.1.0.0/16'',
      ''        - 10.2.0.254'',
      ''      domains:'',
      ''        - '' @ dquote ''*.local'',
      ''        - '' @ dquote ''site.net''])"

definition sample_bad_scope_text :: string where
  "sample_bad_scope_text = concat (map (\<lambda>l. l @ [CHR 0x0A])
     [''# the network below is an address'',
      ''groups:'',
      ''  private_network:'',
      ''    networks:'',
      ''      - 10.0.0.0''])"

definition sample_files :: "(string \<times> string) list" where
  "sample_files =
     [(''/etc/nfr/good.yml'', ''good''),
      (''/etc/nfr/noif.yml'', ''noif''),
      (''/etc/nfr/small.yml'', ''small''),
      (''/etc/nfr/fast.yml'', ''fast''),
      (''/etc/nfr/badscope.yml'', ''badscope''),
      (''/etc/nfr/scope.yml'', sample_scope_text),
      (''/etc/nfr/scope-bad.yml'', sample_bad_scope_text)]"

definition sample_configs :: "(string \<times> Config) list" where
  "sample_configs =
     [(''good'', Config_zero\<lparr>Network_Interface := ''eth0''\<rparr>),
      (''noif'', Config_zero\<lparr>Queries_BufferSize := 100\<rparr>),
      (''small'', Config_zero\<lparr>Network_Interface := ''eth0'', Queries_BufferSize := 10\<rparr>),
      (''fast'', Config_zero\<lparr>Network_Interface := ''eth0'', Queries_FlushInterval := Second\<rparr>),
      (''badscope'', Config_zero\<lparr>Network_Interface := ''eth0'',
                                  Scope_File := ''/etc/nfr/scope-bad.yml''\<rparr>)]"

definition sample_scope_groups :: "(string \<times> ScopeGroup) list" where
  "sample_scope_groups =
     [(''private_network'',
       \<lparr>Networks = [''10.0.0.0/8''],
        Exclude_Networks = [''10.1.0.0/16'', ''10.2.0.254''],
        Exclude_Domains = [''*.local'', ''site.net'']\<rparr>)]"

definition sample_bad_scope_groups :: "(string \<times> ScopeGroup) list" where
  "sample_bad_scope_groups =
     [(''private_network'',
       \<lparr>Networks = [''10.0.0.0''], Exclude_Networks = [], Exclude_Domains = []\<rparr>)]"

definition sample_world :: world where
  "sample_world =
     \<lparr>readFile = (\<lambda>f. case map_of sample_files f of
                          Some c \<Rightarrow> Inr c | None \<Rightarrow> Inl ''no such file or directory''),
      osStat = (\<lambda>f. if f = ''/run'' then StatInfo True False
                     else StatError True ''no such file or directory''),
      interfaceByName =
        (\<lambda>n. if n = ''eth0'' then None else Some ''no such network interface''),
      yamlUnmarshalConfig =
        (\<lambda>c. case map_of sample_configs c of
               Some cfg \<Rightarrow> Inr cfg | None \<Rightarrow> Inl ''yaml: unmarshal errors''),
      yamlUnmarshalScope =
        (\<lambda>c old. case scopeOfYAML c of
               Some gs \<Rightarrow> (gs, None) | None \<Rightarrow> (old, Some ''yaml: unmarshal errors'')),
      parseCIDR = map_of
        [(''10.0.0.0/8'', CIDR (ipv4 10 0 0 0) 8),
         (''192.168.0.0/16'', CIDR (ipv4 192 168 0 0) 16),
         (''172.16.0.0/12'', CIDR (ipv4 172 16 0 0) 12),
         (''fc00::/7'', CIDR (IPv6 0xFC000000000000000000000000000000) 7),
         (''10.1.0.0/16'', CIDR (ipv4 10 1 0 0) 16)],
      parseIP = map_of
        [(''10.2.0.254'', ipv4 10 2 0 254),
         (''10.0.0.0'', ipv4 10 0 0 0)],
      IsDomainName = (\<lambda>s. s \<in> set [''arpa'', ''lan'', ''local'', ''internal'', ''site.net'']),
      pathDir = (\<lambda>p. if p = ''/run/nfr.data'' then ''/run'' else ''.''),
      pathJoin = (\<lambda>a b. a @ ''/'' @ b),
      GOOS = ''linux'',
      osGetenv = (\<lambda>v. [])\<rparr>"

text \<open>The defaults alone, as \<^verbatim>\<open>setDefaults\<close> fills a zero \<^verbatim>\<open>Config\<close> in the sample world.\<close>

definition sample_defaults :: Config where
  "sample_defaults =
     \<lparr>Alphasoc_Host = ''https://api.alphasoc.net'', Alphasoc_APIKey = [],
      Network_Interface = [], Network_Protocols = [''udp''], Network_Port = 53,
      Log_File = ''stdout'', Log_Level = ''info'', Data_File = ''/run/nfr.data'',
      Scope_File = [], ScopeConfig_Groups = defaultScopeGroups, Events_File = ''stderr'',
      Events_PollInterval = 300000000000, Queries_BufferSize = 65535,
      Queries_FlushInterval = 30000000000, Queries_Failed_File = []\<rparr>"

text \<open>
  Two groups that overlap: the first includes 10.0.0.0/8 and excludes 10.1.0.0/16, the
  address 10.2.0.254 and two domain patterns; the second includes 10.1.0.0/16.
\<close>

definition sample_group_a :: Group where
  "sample_group_a =
     \<lparr>groupName = ''private_network'',
      inclusionNetworks = [CIDR (ipv4 10 0 0 0) 8],
      excludeNetworks = [ExcludeCIDR (CIDR (ipv4 10 1 0 0) 16), ExcludeIP (ipv4 10 2 0 254)],
      excludeDomainPatterns = [Wildcard ''local'', Exact ''site.net'']\<rparr>"

definition sample_group_b :: Group where
  "sample_group_b =
     \<lparr>groupName = ''lab'',
      inclusionNetworks = [CIDR (ipv4 10 1 0 0) 16],
      excludeNetworks = [],
      excludeDomainPatterns = []\<rparr>"

text \<open>
  The group of the specification's scenario: \<open>default\<close> with inclusion 10.0.0.0/8 and
  exclude domain \<open>*.local\<close>.
\<close>

definition sample_group_default :: Group where
  "sample_group_default =
     \<lparr>groupName = ''default'',
      inclusionNetworks = [CIDR (ipv4 10 0 0 0) 8],
      excludeNetworks = [],
      excludeDomainPatterns = [parsePattern ''*.local'']\<rparr>"

text \<open>Queries told apart by their timestamp, for the examples.\<close>

definition sample_query :: "int \<Rightarrow> Query" where
  "sample_query t =
     \<lparr>query_timestamp = t, query_sourceIP = ipv4 10 1 2 3, query_recordType = ''A'',
      query_fqdn = ''a.com''\<rparr>"



section \<open>Properties of the configuration code\<close>

subsection \<open>What \<^verbatim>\<open>loadScopeConfig\<close> and \<^verbatim>\<open>setDefaults\<close> leave alone\<close>

lemma loadScopeConfig_Queries_BufferSize:
  "Queries_BufferSize (fst (loadScopeConfig w cfg)) = Queries_BufferSize cfg"
  by (simp add: loadScopeConfig_def split: sum.splits prod.splits option.splits)

lemma loadScopeConfig_Queries_FlushInterval:
  "Queries_FlushInterval (fst (loadScopeConfig w cfg)) = Queries_FlushInterval cfg"
  by (simp add: loadScopeConfig_def split: sum.splits prod.splits option.splits)

lemma loadScopeConfig_Events_PollInterval:
  "Events_PollInterval (fst (loadScopeConfig w cfg)) = Events_PollInterval cfg"
  by (simp add: loadScopeConfig_def split: sum.splits prod.splits option.splits)

lemma loadScopeConfig_Network_Interface:
  "Network_Interface (fst (loadScopeConfig w cfg)) = Network_Interface cfg"
  by (simp add: loadScopeConfig_def split: sum.splits prod.splits option.splits)

lemma setDefaults_Queries_BufferSize:
  "Queries_BufferSize (setDefaults w cfg) =
     (if Queries_BufferSize cfg = 0 then 65535 else Queries_BufferSize cfg)"
  by (simp add: setDefaults_def loadScopeConfig_Queries_BufferSize)

lemma setDefaults_Queries_FlushInterval:
  "Queries_FlushInterval (setDefaults w cfg) =
     (if Queries_FlushInterval cfg = 0 then 30 * Second else Queries_FlushInterval cfg)"
  by (simp add: setDefaults_def loadScopeConfig_Queries_FlushInterval)

lemma setDefaults_Events_PollInterval:
  "Events_PollInterval (setDefaults w cfg) =
     (if Events_PollInterval cfg = 0 then 5 * Minute else Events_PollInterval cfg)"
  by (simp add: setDefaults_def loadScopeConfig_Events_PollInterval)

lemma setDefaults_Network_Interface:
  "Network_Interface (setDefaults w cfg) = Network_Interface cfg"
  by (simp add: setDefaults_def loadScopeConfig_Network_Interface)

lemma Read_Some_cases:
  assumes "Read w file = (Some cfg, err)"
  obtains content decoded cfg1 where
    "readFile w file = Inr content"
    "yamlUnmarshalConfig w content = Inr decoded"
    "loadScopeConfig w (decoded\<lparr>ScopeConfig_Groups := []\<rparr>) = (cfg1, None)"
    "cfg = (setDefaults w cfg1)\<lparr>Network_Protocols := sort (Network_Protocols (setDefaults w cfg1))\<rparr>"
    "err = validate w cfg"
  using assms unfolding Read_def Let_def
  by (auto split: sum.splits prod.splits option.splits)

lemma validate_BufferSize_small:
  "Queries_BufferSize cfg < 64 \<Longrightarrow> validate w cfg \<noteq> None"
  by (simp add: validate_def split: option.splits)

lemma validate_ErrBufferSize:
  "validate w cfg = Some ErrBufferSize \<Longrightarrow> Queries_BufferSize cfg < 64"
  by (simp add: validate_def split: option.splits if_splits)

lemma validate_BufferSize_irrelevant:
  "64 \<le> Queries_BufferSize cfg \<Longrightarrow> 64 \<le> b \<Longrightarrow>
   validate w (cfg\<lparr>Queries_BufferSize := b\<rparr>) = validate w cfg"
  by (simp add: validate_def cong: option.case_cong if_cong)

subsection \<open>What \<^verbatim>\<open>validate\<close> checks\<close>

lemma validate_interval_small:
  "Events_PollInterval cfg < 5 * Second \<or> Queries_FlushInterval cfg < 5 * Second \<Longrightarrow>
   validate w cfg \<noteq> None"
  by (auto simp add: validate_def split: option.splits)

lemma validate_ErrPollInterval:
  "validate w cfg = Some ErrPollInterval \<Longrightarrow> Events_PollInterval cfg < 5 * Second"
  by (simp add: validate_def split: option.splits if_splits)

lemma validate_ErrFlushInterval:
  "validate w cfg = Some ErrFlushInterval \<Longrightarrow> Queries_FlushInterval cfg < 5 * Second"
  by (simp add: validate_def split: option.splits if_splits)

lemma validate_intervals_irrelevant:
  "5 * Second \<le> Events_PollInterval cfg \<Longrightarrow> 5 * Second \<le> Queries_FlushInterval cfg \<Longrightarrow>
   5 * Second \<le> p \<Longrightarrow> 5 * Second \<le> f \<Longrightarrow>
   validate w (cfg\<lparr>Events_PollInterval := p, Queries_FlushInterval := f\<rparr>) = validate w cfg"
  by (simp add: validate_def cong: option.case_cong if_cong)

lemma validate_setDefaults_zero:
  "validate w (setDefaults w Config_zero) = Some ErrEmptyInterface"
  by (simp add: validate_def setDefaults_Network_Interface Config_zero_def)

subsection \<open>Scope validation\<close>

lemma check_networks_None:
  "check_networks w ns = None \<longleftrightarrow> (\<forall>n \<in> set ns. parseCIDR w n \<noteq> None)"
  by (induction ns) auto

lemma check_exclude_networks_None:
  "check_exclude_networks w ns = None \<longleftrightarrow> (\<forall>n \<in> set ns. parseCIDR w n \<noteq> None \<or> parseIP w n \<noteq> None)"
  by (induction ns) auto

lemma check_exclude_domains_None:
  "check_exclude_domains w ds = None \<longleftrightarrow>
     (\<forall>d \<in> set ds. IsDomainName w d \<or> IsDomainName w (TrimPrefix d ''*.''))"
  by (induction ds) auto

lemma validateGroup_None:
  "validateGroup w g = None \<longleftrightarrow>
     (\<forall>n \<in> set (Networks g). parseCIDR w n \<noteq> None)
   \<and> (\<forall>n \<in> set (Exclude_Networks g). parseCIDR w n \<noteq> None \<or> parseIP w n \<noteq> None)
   \<and> (\<forall>d \<in> set (Exclude_Domains g). IsDomainName w d \<or> IsDomainName w (TrimPrefix d ''*.''))"
proof -
  have "validateGroup w g = None \<longleftrightarrow>
      check_networks w (Networks g) = None
    \<and> check_exclude_networks w (Exclude_Networks g) = None
    \<and> check_exclude_domains w (Exclude_Domains g) = None"
    by (simp add: validateGroup_def split: option.splits)
  then show ?thesis
    by (simp only: check_networks_None check_exclude_networks_None check_exclude_domains_None)
qed

lemma validateGroups_None:
  "validateGroups w gs = None \<longleftrightarrow> (\<forall>(name, g) \<in> set gs. validateGroup w g = None)"
  by (induction gs) (auto split: option.splits)

lemma loadScopeConfig_decoded:
  assumes "(if Scope_File cfg \<noteq> [] then readFile w (Scope_File cfg) else Inr defaultScope)
             = Inr content"
    and "yamlUnmarshalScope w content (ScopeConfig_Groups cfg) = (gs, None)"
  shows "loadScopeConfig w cfg =
           (cfg\<lparr>ScopeConfig_Groups := gs\<rparr>,
            validateScopeConfig w (cfg\<lparr>ScopeConfig_Groups := gs\<rparr>))"
  using assms unfolding loadScopeConfig_def by simp

lemma Read_scope_error:
  assumes "readFile w file = Inr c"
    and "yamlUnmarshalConfig w c = Inr decoded"
    and "snd (loadScopeConfig w (decoded\<lparr>ScopeConfig_Groups := []\<rparr>)) = Some e"
  shows "Read w file = (None, Some e)"
  using assms unfolding Read_def
  by (cases "loadScopeConfig w (decoded\<lparr>ScopeConfig_Groups := []\<rparr>)") simp

subsection \<open>The sample world, evaluated\<close>

lemma scopeOfYAML_defaultScope: "scopeOfYAML defaultScope = Some defaultScopeGroups"
  by code_simp

lemma scopeOfYAML_sample_scope: "scopeOfYAML sample_scope_text = Some sample_scope_groups"
  by code_simp

lemma scopeOfYAML_sample_bad_scope:
  "scopeOfYAML sample_bad_scope_text = Some sample_bad_scope_groups"
  by code_simp

lemmas sample_scopeOfYAML =
  scopeOfYAML_defaultScope scopeOfYAML_sample_scope scopeOfYAML_sample_bad_scope

lemmas sample_defs =
  sample_world_def sample_files_def sample_configs_def
  sample_scope_groups_def sample_bad_scope_groups_def sample_defaults_def
  defaultScopeGroups_def Config_zero_def Second_def Minute_def DefaultLocation_def

lemmas config_defs =
  Read_def New_def loadScopeConfig_def setDefaults_def validate_def validateFilename_def
  validateScopeConfig_def validateGroup_def TrimPrefix_def

lemma sample_Read_small:
  "Read sample_world ''/etc/nfr/small.yml'' =
     (Some (sample_defaults\<lparr>Network_Interface := ''eth0'', Queries_BufferSize := 10\<rparr>),
      Some ErrBufferSize)"
  by (simp add: config_defs sample_defs sample_scopeOfYAML)

lemma sample_Read_noif:
  "Read sample_world ''/etc/nfr/noif.yml'' =
     (Some (sample_defaults\<lparr>Queries_BufferSize := 100\<rparr>), Some ErrEmptyInterface)"
  by (simp add: config_defs sample_defs sample_scopeOfYAML)

lemma sample_New_default:
  "New sample_world [] = (Some sample_defaults, None)"
  by (simp add: config_defs sample_defs sample_scopeOfYAML)

lemma sample_Read_fast:
  "Read sample_world ''/etc/nfr/fast.yml'' =
     (Some (sample_defaults\<lparr>Network_Interface := ''eth0'', Queries_FlushInterval := Second\<rparr>),
      Some ErrFlushInterval)"
  by (simp add: config_defs sample_defs sample_scopeOfYAML)

lemma sample_validate_scope:
  "validateScopeConfig sample_world (Config_zero\<lparr>ScopeConfig_Groups := sample_scope_groups\<rparr>)
     = None"
  by (simp add: validateScopeConfig_def validateGroup_def TrimPrefix_def sample_defs)

lemma sample_load_bad_scope:
  "loadScopeConfig sample_world
     (Config_zero\<lparr>Network_Interface := ''eth0'', Scope_File := ''/etc/nfr/scope-bad.yml''\<rparr>)
   = (Config_zero\<lparr>Network_Interface := ''eth0'', Scope_File := ''/etc/nfr/scope-bad.yml'',
                   ScopeConfig_Groups := sample_bad_scope_groups\<rparr>,
      Some (ErrNotCidr ''10.0.0.0''))"
  by (simp add: loadScopeConfig_def validateScopeConfig_def validateGroup_def TrimPrefix_def
      sample_defs sample_scopeOfYAML)

section \<open>Properties of the scope resolver, the buffer and the flusher\<close>

subsection \<open>Scope\<close>

lemma map_eq_iff_list_all2:
  "map f xs = map f ys \<longleftrightarrow> list_all2 (\<lambda>x y. f x = f y) xs ys"
proof (induction xs arbitrary: ys)
  case Nil
  then show ?case by simp
next
  case (Cons x xs)
  then show ?case by (cases ys) simp_all
qed

lemma endsWith_iff: "endsWith s e \<longleftrightarrow> (\<exists>pre. s = pre @ e)"
proof
  assume "endsWith s e"
  then have "s = take (length s - length e) s @ e"
    unfolding endsWith_def by (metis append_take_drop_id)
  then show "\<exists>pre. s = pre @ e" ..
next
  assume "\<exists>pre. s = pre @ e"
  then show "endsWith s e" by (auto simp add: endsWith_def)
qed

lemma IsInScope_iff_ex: "IsInScope gs a fqdn \<longleftrightarrow> (\<exists>g \<in> set gs. groupInScope g a fqdn)"
  by (induction gs) auto

lemma groupInScope_iff:
  "groupInScope g a fqdn \<longleftrightarrow>
     (\<exists>n \<in> set (inclusionNetworks g). cidr_contains n a)
   \<and> (\<forall>e \<in> set (excludeNetworks g). \<not> exclude_matches e a)
   \<and> (\<forall>p \<in> set (excludeDomainPatterns g). \<not> matchDomain p fqdn)"
  by (auto simp add: groupInScope_def list_ex_iff)

lemma IsInScope_append:
  "IsInScope (gs @ gs') a fqdn \<longleftrightarrow> IsInScope gs a fqdn \<or> IsInScope gs' a fqdn"
  by (induction gs) auto

subsection \<open>Buffer\<close>

lemma pushAll_below:
  "length (buffered b) + length qs < capacity b \<Longrightarrow>
   pushAll b qs = (b\<lparr>buffered := buffered b @ qs\<rparr>, [])"
proof (induction qs arbitrary: b)
  case Nil
  then show ?case by simp
next
  case (Cons q qs)
  have "pushAll (b\<lparr>buffered := buffered b @ [q]\<rparr>) qs =
      ((b\<lparr>buffered := buffered b @ [q]\<rparr>)
         \<lparr>buffered := buffered (b\<lparr>buffered := buffered b @ [q]\<rparr>) @ qs\<rparr>, [])"
    using Cons.prems by (intro Cons.IH) simp
  then show ?case using Cons.prems by (simp add: Push_def)
qed

lemma pushAll_reaches:
  "qs \<noteq> [] \<Longrightarrow> length (buffered b) + length qs = capacity b \<Longrightarrow>
   pushAll b qs = (b\<lparr>buffered := []\<rparr>, [buffered b @ qs])"
proof (induction qs arbitrary: b)
  case Nil
  then show ?case by simp
next
  case (Cons q qs)
  show ?case
  proof (cases "qs = []")
    case True
    then show ?thesis using Cons.prems by (simp add: Push_def SwapAndDrain_def)
  next
    case False
    have "pushAll (b\<lparr>buffered := buffered b @ [q]\<rparr>) qs =
      ((b\<lparr>buffered := buffered b @ [q]\<rparr>)\<lparr>buffered := []\<rparr>,
       [buffered (b\<lparr>buffered := buffered b @ [q]\<rparr>) @ qs])"
      using Cons.prems False by (intro Cons.IH) simp_all
    moreover have "\<not> capacity b \<le> length (buffered b @ [q])"
      using Cons.prems False by (cases qs) simp_all
    ultimately show ?thesis by (simp add: Push_def)
  qed
qed

subsection \<open>Flusher\<close>










lemma sample_group_a_excludes: "\<not> groupInScope sample_group_a (ipv4 10 1 2 3) ''a.com''"
  by (simp add: groupInScope_def sample_group_a_def ipv4_def)

lemma sample_group_b_includes: "groupInScope sample_group_b (ipv4 10 1 2 3) ''a.com''"
  by (simp add: groupInScope_def sample_group_b_def ipv4_def)

subsection \<open>Building the resolver, and the scope of a configuration that was read\<close>

lemma buildNetworks_Inl:
  "buildNetworks w ns = Inl e \<longleftrightarrow> check_networks w ns = Some e"
  by (induction ns) (auto split: option.splits sum.splits)

lemma buildExcludeNetworks_Inl:
  "buildExcludeNetworks w ns = Inl e \<longleftrightarrow> check_exclude_networks w ns = Some e"
  by (induction ns) (auto split: option.splits sum.splits)

lemma buildPatterns_Inl:
  "buildPatterns w ds = Inl e \<longleftrightarrow> check_exclude_domains w ds = Some e"
  by (induction ds) (auto split: option.splits sum.splits)

lemma buildGroup_Inl:
  "buildGroup w name g = Inl e \<longleftrightarrow> validateGroup w g = Some e"
proof (cases "check_networks w (Networks g)")
  case (Some e1)
  then have "buildNetworks w (Networks g) = Inl e1" by (simp add: buildNetworks_Inl)
  with Some show ?thesis by (simp add: buildGroup_def validateGroup_def)
next
  case n1: None
  then obtain cs where cs: "buildNetworks w (Networks g) = Inr cs"
    using buildNetworks_Inl [of w "Networks g"] by (cases "buildNetworks w (Networks g)") auto
  show ?thesis
  proof (cases "check_exclude_networks w (Exclude_Networks g)")
    case (Some e2)
    then have "buildExcludeNetworks w (Exclude_Networks g) = Inl e2"
      by (simp add: buildExcludeNetworks_Inl)
    with Some n1 cs show ?thesis by (simp add: buildGroup_def validateGroup_def)
  next
    case n2: None
    then obtain xs where xs: "buildExcludeNetworks w (Exclude_Networks g) = Inr xs"
      using buildExcludeNetworks_Inl [of w "Exclude_Networks g"]
      by (cases "buildExcludeNetworks w (Exclude_Networks g)") auto
    show ?thesis
    proof (cases "buildPatterns w (Exclude_Domains g)")
      case (Inl e3)
      then have "check_exclude_domains w (Exclude_Domains g) = Some e3"
        by (simp add: buildPatterns_Inl)
      with Inl n1 n2 cs xs show ?thesis by (simp add: buildGroup_def validateGroup_def)
    next
      case (Inr ps)
      then have "check_exclude_domains w (Exclude_Domains g) \<noteq> Some e"
        using buildPatterns_Inl [of w "Exclude_Domains g" e] by simp
      with Inr n1 n2 cs xs show ?thesis by (simp add: buildGroup_def validateGroup_def)
    qed
  qed
qed

lemma buildScopeResolver_Inl:
  "buildScopeResolver w gs = Inl e \<longleftrightarrow> validateGroups w gs = Some e"
proof (induction gs)
  case Nil
  then show ?case by simp
next
  case (Cons ng gs)
  obtain name g where ng: "ng = (name, g)" by (cases ng) auto
  show ?case
  proof (cases "buildGroup w name g")
    case (Inl e1)
    then have "validateGroup w g = Some e1" by (simp add: buildGroup_Inl)
    with Inl ng show ?thesis by simp
  next
    case (Inr grp)
    then have "validateGroup w g = None"
      using buildGroup_Inl [of w name g] by (cases "validateGroup w g") auto
    with Inr ng Cons.IH show ?thesis by (auto split: sum.splits)
  qed
qed

lemma buildScopeResolver_Inr:
  "(\<exists>resolver. buildScopeResolver w gs = Inr resolver) \<longleftrightarrow> validateGroups w gs = None"
proof (cases "buildScopeResolver w gs")
  case (Inl e)
  then have "validateGroups w gs = Some e" by (simp add: buildScopeResolver_Inl)
  with Inl show ?thesis by simp
next
  case (Inr resolver)
  then have "validateGroups w gs \<noteq> Some e" for e
    using buildScopeResolver_Inl [of w gs e] by simp
  with Inr show ?thesis by (cases "validateGroups w gs") auto
qed

lemma loadScopeConfig_None_cases:
  assumes "loadScopeConfig w cfg = (cfg1, None)"
  obtains content gs where
    "(if Scope_File cfg \<noteq> [] then readFile w (Scope_File cfg) else Inr defaultScope) = Inr content"
    "yamlUnmarshalScope w content (ScopeConfig_Groups cfg) = (gs, None)"
    "cfg1 = cfg\<lparr>ScopeConfig_Groups := gs\<rparr>"
    "validateGroups w gs = None"
  using assms unfolding loadScopeConfig_def validateScopeConfig_def
  by (auto split: sum.splits prod.splits option.splits)

lemma setDefaults_ScopeConfig_Groups:
  assumes "(if Scope_File cfg \<noteq> [] then readFile w (Scope_File cfg) else Inr defaultScope)
             = Inr content"
    and "yamlUnmarshalScope w content (ScopeConfig_Groups cfg) = (gs, None)"
  shows "ScopeConfig_Groups (setDefaults w cfg) = gs"
proof -
  obtain cfgD where sd: "setDefaults w cfg = fst (loadScopeConfig w cfgD)"
    and f: "Scope_File cfgD = Scope_File cfg"
    and g: "ScopeConfig_Groups cfgD = ScopeConfig_Groups cfg"
    unfolding setDefaults_def by simp
  from assms(1) f have
    "(if Scope_File cfgD \<noteq> [] then readFile w (Scope_File cfgD) else Inr defaultScope)
       = Inr content" by (auto split: if_splits)
  moreover from assms(2) g have
    "yamlUnmarshalScope w content (ScopeConfig_Groups cfgD) = (gs, None)" by simp
  ultimately have "loadScopeConfig w cfgD =
      (cfgD\<lparr>ScopeConfig_Groups := gs\<rparr>, validateScopeConfig w (cfgD\<lparr>ScopeConfig_Groups := gs\<rparr>))"
    by (rule loadScopeConfig_decoded)
  with sd show ?thesis by simp
qed

lemma Read_validated:
  assumes rd: "Read w file = (Some cfg, err)"
    and stable: "\<forall>content gs. yamlUnmarshalScope w content [] = (gs, None) \<longrightarrow>
                   yamlUnmarshalScope w content gs = (gs, None)"
  shows "validateScopeConfig w cfg = None"
proof -
  from rd obtain content decoded cfg1 where
    l: "loadScopeConfig w (decoded\<lparr>ScopeConfig_Groups := []\<rparr>) = (cfg1, None)"
    and c: "cfg = (setDefaults w cfg1)
              \<lparr>Network_Protocols := sort (Network_Protocols (setDefaults w cfg1))\<rparr>"
    by (rule Read_Some_cases)
  from l obtain sc gs where
    src0: "(if Scope_File (decoded\<lparr>ScopeConfig_Groups := []\<rparr>) \<noteq> []
            then readFile w (Scope_File (decoded\<lparr>ScopeConfig_Groups := []\<rparr>))
            else Inr defaultScope) = Inr sc"
    and dec0: "yamlUnmarshalScope w sc (ScopeConfig_Groups (decoded\<lparr>ScopeConfig_Groups := []\<rparr>))
            = (gs, None)"
    and cfg1: "cfg1 = (decoded\<lparr>ScopeConfig_Groups := []\<rparr>)\<lparr>ScopeConfig_Groups := gs\<rparr>"
    and valid: "validateGroups w gs = None"
    by (rule loadScopeConfig_None_cases)
  from dec0 have dec: "yamlUnmarshalScope w sc [] = (gs, None)" by simp
  with stable have again: "yamlUnmarshalScope w sc gs = (gs, None)" by blast
  have f1: "Scope_File cfg1 = Scope_File (decoded\<lparr>ScopeConfig_Groups := []\<rparr>)"
    and g1: "ScopeConfig_Groups cfg1 = gs"
    unfolding cfg1 by simp_all
  from src0 f1 have
    "(if Scope_File cfg1 \<noteq> [] then readFile w (Scope_File cfg1) else Inr defaultScope) = Inr sc"
    by (auto split: if_splits)
  moreover from again g1 have "yamlUnmarshalScope w sc (ScopeConfig_Groups cfg1) = (gs, None)"
    by simp
  ultimately have "ScopeConfig_Groups (setDefaults w cfg1) = gs"
    by (rule setDefaults_ScopeConfig_Groups)
  with c valid show ?thesis by (simp add: validateScopeConfig_def)
qed

lemma sample_Read_good:
  "Read sample_world ''/etc/nfr/good.yml'' =
     (Some (sample_defaults\<lparr>Network_Interface := ''eth0''\<rparr>), None)"
  by (simp add: config_defs sample_defs sample_scopeOfYAML)

lemma sample_decoder_stable:
  "\<forall>content gs. yamlUnmarshalScope sample_world content [] = (gs, None) \<longrightarrow>
     yamlUnmarshalScope sample_world content gs = (gs, None)"
  by (simp add: sample_world_def split: option.splits)

lemma sample_build_resolver:
  "buildScopeResolver sample_world sample_scope_groups = Inr [sample_group_a]"
  by (simp add: buildGroup_def TrimPrefix_def sample_world_def sample_scope_groups_def
      sample_group_a_def)

lemma sample_build_bad:
  "buildScopeResolver sample_world sample_bad_scope_groups = Inl (ErrNotCidr ''10.0.0.0'')"
  by (simp add: buildGroup_def sample_world_def sample_bad_scope_groups_def)

section \<open>The claims about the configuration\<close>

text \<open>
  C7 (amended). For every configuration read from a file: a \<^verbatim>\<open>Queries.BufferSize\<close> the
  file leaves unset (zero) is set to 65535, and the error returned with the configuration
  is the result of \<^verbatim>\<open>validate\<close>. Validation returns an error whenever the resulting
  \<^verbatim>\<open>BufferSize\<close> is less than 64; the error "queries buffer size must be at least 64" is
  returned only then; and when every other check of \<^verbatim>\<open>validate\<close> passes (the same
  configuration with a buffer size of 65535 is valid), validation succeeds exactly when
  \<^verbatim>\<open>BufferSize\<close> is at least 64.
\<close>

theorem BufferSize_default_and_minimum:
  assumes "readFile w file = Inr content"
    and "yamlUnmarshalConfig w content = Inr decoded"
    and "Read w file = (Some cfg, err)"
  shows "Queries_BufferSize cfg =
           (if Queries_BufferSize decoded = 0 then 65535 else Queries_BufferSize decoded)
       \<and> err = validate w cfg
       \<and> (Queries_BufferSize cfg < 64 \<longrightarrow> err \<noteq> None)
       \<and> (err = Some ErrBufferSize \<longrightarrow> Queries_BufferSize cfg < 64)
       \<and> (validate w (cfg\<lparr>Queries_BufferSize := 65535\<rparr>) = None \<longrightarrow>
            (err = None \<longleftrightarrow> 64 \<le> Queries_BufferSize cfg))"
proof -
  from assms(3) obtain content' decoded' cfg1 where
    r: "readFile w file = Inr content'"
    and d: "yamlUnmarshalConfig w content' = Inr decoded'"
    and l: "loadScopeConfig w (decoded'\<lparr>ScopeConfig_Groups := []\<rparr>) = (cfg1, None)"
    and c: "cfg = (setDefaults w cfg1)
              \<lparr>Network_Protocols := sort (Network_Protocols (setDefaults w cfg1))\<rparr>"
    and e: "err = validate w cfg"
    by (rule Read_Some_cases)
  from r d assms(1,2) have same: "decoded' = decoded" by simp
  have "Queries_BufferSize cfg1 =
          Queries_BufferSize (fst (loadScopeConfig w (decoded\<lparr>ScopeConfig_Groups := []\<rparr>)))"
    using l same by simp
  then have b1: "Queries_BufferSize cfg1 = Queries_BufferSize decoded"
    by (simp add: loadScopeConfig_Queries_BufferSize)
  have size: "Queries_BufferSize cfg =
      (if Queries_BufferSize decoded = 0 then 65535 else Queries_BufferSize decoded)"
    using c b1 by (simp add: setDefaults_Queries_BufferSize)
  have small: "Queries_BufferSize cfg < 64 \<longrightarrow> err \<noteq> None"
    using e validate_BufferSize_small by simp
  have own: "err = Some ErrBufferSize \<longrightarrow> Queries_BufferSize cfg < 64"
    using e validate_ErrBufferSize by simp
  have rest: "err = None \<longleftrightarrow> 64 \<le> Queries_BufferSize cfg"
    if ok: "validate w (cfg\<lparr>Queries_BufferSize := 65535\<rparr>) = None"
  proof (cases "64 \<le> Queries_BufferSize cfg")
    case True
    have "validate w ((cfg\<lparr>Queries_BufferSize := 65535\<rparr>)\<lparr>Queries_BufferSize := Queries_BufferSize cfg\<rparr>)
            = validate w (cfg\<lparr>Queries_BufferSize := 65535\<rparr>)"
      using True by (intro validate_BufferSize_irrelevant) simp_all
    then have "validate w cfg = None" using ok by simp
    then show ?thesis using e True by simp
  next
    case False
    then show ?thesis using small by simp
  qed
  show ?thesis using size e small own rest by blast
qed

text \<open>
  Witness for C7: the sample file \<open>small.yml\<close> sets the interface and a buffer size
  of 10; it is read, the defaults are filled in, and validation returns the buffer size
  error, while the same configuration with 65535 is valid.
\<close>

theorem BufferSize_default_and_minimum_witness:
  "readFile sample_world ''/etc/nfr/small.yml'' = Inr ''small''
   \<and> yamlUnmarshalConfig sample_world ''small'' =
       Inr (Config_zero\<lparr>Network_Interface := ''eth0'', Queries_BufferSize := 10\<rparr>)
   \<and> Read sample_world ''/etc/nfr/small.yml'' =
       (Some (sample_defaults\<lparr>Network_Interface := ''eth0'', Queries_BufferSize := 10\<rparr>),
        Some ErrBufferSize)
   \<and> validate sample_world
        (sample_defaults\<lparr>Network_Interface := ''eth0'', Queries_BufferSize := 65535\<rparr>) = None
   \<and> validate sample_world
        (sample_defaults\<lparr>Network_Interface := ''eth0'', Queries_BufferSize := 10\<rparr>) \<noteq> None"
proof -
  have r: "readFile sample_world ''/etc/nfr/small.yml'' = Inr ''small''"
    by (simp add: sample_world_def sample_files_def)
  have d: "yamlUnmarshalConfig sample_world ''small'' =
       Inr (Config_zero\<lparr>Network_Interface := ''eth0'', Queries_BufferSize := 10\<rparr>)"
    by (simp add: sample_world_def sample_configs_def)
  note t = BufferSize_default_and_minimum [OF r d sample_Read_small]
  have ok: "validate sample_world
        (sample_defaults\<lparr>Network_Interface := ''eth0'', Queries_BufferSize := 65535\<rparr>) = None"
    by (simp add: validate_def validateFilename_def sample_defs)
  from t have e: "Some ErrBufferSize = validate sample_world
        (sample_defaults\<lparr>Network_Interface := ''eth0'', Queries_BufferSize := 10\<rparr>)"
    by blast
  have "validate sample_world
        (sample_defaults\<lparr>Network_Interface := ''eth0'', Queries_BufferSize := 10\<rparr>) \<noteq> None"
    unfolding e [symmetric] by simp
  with r d ok sample_Read_small show ?thesis by simp
qed

text \<open>
  Counterexample to C7 as stated ("validation returns an error exactly when the resulting
  BufferSize is less than 64"): the sample file \<open>noif.yml\<close> sets a buffer size of
  100 and no interface; \<^verbatim>\<open>Read\<close> returns the configuration with the error "empty
  network.interface", although the buffer size is not less than 64.
\<close>

theorem validation_error_with_valid_BufferSize:
  "Read sample_world ''/etc/nfr/noif.yml'' =
     (Some (sample_defaults\<lparr>Queries_BufferSize := 100\<rparr>), Some ErrEmptyInterface)
   \<and> \<not> Queries_BufferSize (sample_defaults\<lparr>Queries_BufferSize := 100\<rparr>) < 64"
  using sample_Read_noif by simp

text \<open>
  C8 (amended). For every configuration read from a file: an unset \<^verbatim>\<open>FlushInterval\<close>
  defaults to 30 seconds and an unset \<^verbatim>\<open>PollInterval\<close> to 5 minutes. Validation returns
  an error whenever either resulting interval is less than 5 seconds; the two interval
  errors are returned only for an interval less than 5 seconds; and when every other check
  of \<^verbatim>\<open>validate\<close> passes (the same configuration with the default intervals is valid),
  validation succeeds exactly when both intervals are at least 5 seconds.
\<close>

theorem intervals_default_and_minimum:
  assumes "readFile w file = Inr content"
    and "yamlUnmarshalConfig w content = Inr decoded"
    and "Read w file = (Some cfg, err)"
  shows "Queries_FlushInterval cfg =
           (if Queries_FlushInterval decoded = 0 then 30 * Second
            else Queries_FlushInterval decoded)
       \<and> Events_PollInterval cfg =
           (if Events_PollInterval decoded = 0 then 5 * Minute
            else Events_PollInterval decoded)
       \<and> err = validate w cfg
       \<and> (Events_PollInterval cfg < 5 * Second \<or> Queries_FlushInterval cfg < 5 * Second
            \<longrightarrow> err \<noteq> None)
       \<and> (err = Some ErrPollInterval \<longrightarrow> Events_PollInterval cfg < 5 * Second)
       \<and> (err = Some ErrFlushInterval \<longrightarrow> Queries_FlushInterval cfg < 5 * Second)
       \<and> (validate w (cfg\<lparr>Events_PollInterval := 5 * Minute,
                          Queries_FlushInterval := 30 * Second\<rparr>) = None \<longrightarrow>
            (err = None \<longleftrightarrow>
               5 * Second \<le> Events_PollInterval cfg \<and> 5 * Second \<le> Queries_FlushInterval cfg))"
proof -
  from assms(3) obtain content' decoded' cfg1 where
    r: "readFile w file = Inr content'"
    and d: "yamlUnmarshalConfig w content' = Inr decoded'"
    and l: "loadScopeConfig w (decoded'\<lparr>ScopeConfig_Groups := []\<rparr>) = (cfg1, None)"
    and c: "cfg = (setDefaults w cfg1)
              \<lparr>Network_Protocols := sort (Network_Protocols (setDefaults w cfg1))\<rparr>"
    and e: "err = validate w cfg"
    by (rule Read_Some_cases)
  from r d assms(1,2) have same: "decoded' = decoded" by simp
  have cfg1: "cfg1 = fst (loadScopeConfig w (decoded\<lparr>ScopeConfig_Groups := []\<rparr>))"
    using l same by simp
  have f1: "Queries_FlushInterval cfg1 = Queries_FlushInterval decoded"
    unfolding cfg1 by (simp add: loadScopeConfig_Queries_FlushInterval)
  have p1: "Events_PollInterval cfg1 = Events_PollInterval decoded"
    unfolding cfg1 by (simp add: loadScopeConfig_Events_PollInterval)
  have flush: "Queries_FlushInterval cfg =
      (if Queries_FlushInterval decoded = 0 then 30 * Second else Queries_FlushInterval decoded)"
    using c f1 by (simp add: setDefaults_Queries_FlushInterval)
  have poll: "Events_PollInterval cfg =
      (if Events_PollInterval decoded = 0 then 5 * Minute else Events_PollInterval decoded)"
    using c p1 by (simp add: setDefaults_Events_PollInterval)
  have small: "Events_PollInterval cfg < 5 * Second \<or> Queries_FlushInterval cfg < 5 * Second
      \<longrightarrow> err \<noteq> None"
    using e validate_interval_small by blast
  have ownp: "err = Some ErrPollInterval \<longrightarrow> Events_PollInterval cfg < 5 * Second"
    using e validate_ErrPollInterval by simp
  have ownf: "err = Some ErrFlushInterval \<longrightarrow> Queries_FlushInterval cfg < 5 * Second"
    using e validate_ErrFlushInterval by simp
  have rest: "err = None \<longleftrightarrow>
      5 * Second \<le> Events_PollInterval cfg \<and> 5 * Second \<le> Queries_FlushInterval cfg"
    if ok: "validate w (cfg\<lparr>Events_PollInterval := 5 * Minute,
                          Queries_FlushInterval := 30 * Second\<rparr>) = None"
  proof (cases "5 * Second \<le> Events_PollInterval cfg \<and> 5 * Second \<le> Queries_FlushInterval cfg")
    case True
    have "validate w (cfg\<lparr>Events_PollInterval := 5 * Minute,
                          Queries_FlushInterval := 30 * Second\<rparr>) = validate w cfg"
      using True by (intro validate_intervals_irrelevant) (simp_all add: Minute_def Second_def)
    then have "validate w cfg = None" using ok by simp
    then show ?thesis using e True by simp
  next
    case False
    then have "Events_PollInterval cfg < 5 * Second \<or> Queries_FlushInterval cfg < 5 * Second"
      by auto
    then have "err \<noteq> None" using small by blast
    then show ?thesis using False by blast
  qed
  show ?thesis using flush poll e small ownp ownf rest by blast
qed

text \<open>
  Witness for C8: the sample file \<open>fast.yml\<close> sets a flush interval of one second and
  leaves the poll interval unset; validation returns the flush interval error, and the
  same configuration with the default intervals is valid.
\<close>

theorem intervals_default_and_minimum_witness:
  "readFile sample_world ''/etc/nfr/fast.yml'' = Inr ''fast''
   \<and> yamlUnmarshalConfig sample_world ''fast'' =
       Inr (Config_zero\<lparr>Network_Interface := ''eth0'', Queries_FlushInterval := Second\<rparr>)
   \<and> Read sample_world ''/etc/nfr/fast.yml'' =
       (Some (sample_defaults\<lparr>Network_Interface := ''eth0'', Queries_FlushInterval := Second\<rparr>),
        Some ErrFlushInterval)
   \<and> Events_PollInterval
        (sample_defaults\<lparr>Network_Interface := ''eth0'', Queries_FlushInterval := Second\<rparr>)
       = 5 * Minute
   \<and> validate sample_world
        (sample_defaults\<lparr>Network_Interface := ''eth0'', Events_PollInterval := 5 * Minute,
                          Queries_FlushInterval := 30 * Second\<rparr>) = None"
proof -
  have r: "readFile sample_world ''/etc/nfr/fast.yml'' = Inr ''fast''"
    by (simp add: sample_world_def sample_files_def)
  have d: "yamlUnmarshalConfig sample_world ''fast'' =
       Inr (Config_zero\<lparr>Network_Interface := ''eth0'', Queries_FlushInterval := Second\<rparr>)"
    by (simp add: sample_world_def sample_configs_def)
  note t = intervals_default_and_minimum [OF r d sample_Read_fast]
  have p: "Events_PollInterval
        (sample_defaults\<lparr>Network_Interface := ''eth0'', Queries_FlushInterval := Second\<rparr>)
       = 5 * Minute"
    using t by (simp add: Config_zero_def)
  have ok: "validate sample_world
        (sample_defaults\<lparr>Network_Interface := ''eth0'', Events_PollInterval := 5 * Minute,
                          Queries_FlushInterval := 30 * Second\<rparr>) = None"
    by (simp add: validate_def validateFilename_def sample_defs)
  from r d p ok sample_Read_fast show ?thesis by simp
qed

text \<open>
  Counterexample to C8 as stated ("validation returns an error exactly when either
  resulting interval is less than 5 seconds"): for the sample file \<open>small.yml\<close>
  validation returns the buffer size error, although both intervals have their defaults.
\<close>

theorem validation_error_with_valid_intervals:
  "Read sample_world ''/etc/nfr/small.yml'' =
     (Some (sample_defaults\<lparr>Network_Interface := ''eth0'', Queries_BufferSize := 10\<rparr>),
      Some ErrBufferSize)
   \<and> \<not> (Events_PollInterval
            (sample_defaults\<lparr>Network_Interface := ''eth0'', Queries_BufferSize := 10\<rparr>)
          < 5 * Second
        \<or> Queries_FlushInterval
            (sample_defaults\<lparr>Network_Interface := ''eth0'', Queries_BufferSize := 10\<rparr>)
          < 5 * Second)"
  using sample_Read_small by (simp add: sample_defaults_def Second_def)

text \<open>
  C10. When \<^verbatim>\<open>New\<close> is called with an empty path and \<^verbatim>\<open>os.Stat\<close> finds no file at the
  default location, it returns the defaults-only configuration with a \<^verbatim>\<open>nil\<close> error;
  that configuration has an empty network interface, which \<^verbatim>\<open>validate\<close> would reject,
  so validation has not run. Whenever \<^verbatim>\<open>New\<close> returns a configuration, either it is
  that defaults-only one (with no error), or a configuration file was read and the error
  is the result of \<^verbatim>\<open>validate\<close> on the configuration returned.
\<close>

theorem New_without_file_skips_validation:
  "(osStat w DefaultLocation = StatError ne e \<longrightarrow>
      New w [] = (Some (setDefaults w Config_zero), None)
    \<and> Network_Interface (setDefaults w Config_zero) = []
    \<and> validate w (setDefaults w Config_zero) = Some ErrEmptyInterface)
   \<and> (New w file = (Some cfg, err) \<longrightarrow>
        (file = [] \<and> (\<exists>ne e. osStat w DefaultLocation = StatError ne e)
           \<and> cfg = setDefaults w Config_zero \<and> err = None)
      \<or> (\<exists>content. readFile w (if file \<noteq> [] then file else DefaultLocation) = Inr content
           \<and> Read w (if file \<noteq> [] then file else DefaultLocation) = (Some cfg, err)
           \<and> err = validate w cfg))"
proof (intro conjI impI)
  assume "osStat w DefaultLocation = StatError ne e"
  then show "New w [] = (Some (setDefaults w Config_zero), None)"
    by (simp add: New_def)
next
  show "Network_Interface (setDefaults w Config_zero) = []"
    by (simp add: setDefaults_Network_Interface Config_zero_def)
next
  show "validate w (setDefaults w Config_zero) = Some ErrEmptyInterface"
    by (rule validate_setDefaults_zero)
next
  assume n: "New w file = (Some cfg, err)"
  show "(file = [] \<and> (\<exists>ne e. osStat w DefaultLocation = StatError ne e)
           \<and> cfg = setDefaults w Config_zero \<and> err = None)
      \<or> (\<exists>content. readFile w (if file \<noteq> [] then file else DefaultLocation) = Inr content
           \<and> Read w (if file \<noteq> [] then file else DefaultLocation) = (Some cfg, err)
           \<and> err = validate w cfg)"
  proof (cases "file \<noteq> [] \<or> (\<exists>d r. osStat w DefaultLocation = StatInfo d r)")
    case True
    then have "New w file = Read w (if file \<noteq> [] then file else DefaultLocation)"
      by (auto simp add: New_def)
    with n have rd: "Read w (if file \<noteq> [] then file else DefaultLocation) = (Some cfg, err)"
      by simp
    from rd obtain content where
      "readFile w (if file \<noteq> [] then file else DefaultLocation) = Inr content"
      and "err = validate w cfg"
      by (rule Read_Some_cases)
    with rd show ?thesis by blast
  next
    case False
    then obtain ne e where st: "osStat w DefaultLocation = StatError ne e" and f: "file = []"
      by (cases "osStat w DefaultLocation") auto
    with n show ?thesis by (auto simp add: New_def)
  qed
qed

text \<open>
  Witness for C10: in the sample world no file exists at the default location, so
  \<^verbatim>\<open>New\<close> with an empty path returns the defaults, which \<^verbatim>\<open>validate\<close> rejects; with the
  path of \<open>noif.yml\<close> the file is read and validation's error is returned.
\<close>

theorem New_without_file_skips_validation_witness:
  "osStat sample_world DefaultLocation = StatError True ''no such file or directory''
   \<and> New sample_world [] = (Some sample_defaults, None)
   \<and> validate sample_world sample_defaults = Some ErrEmptyInterface
   \<and> New sample_world ''/etc/nfr/noif.yml'' =
       (Some (sample_defaults\<lparr>Queries_BufferSize := 100\<rparr>), Some ErrEmptyInterface)
   \<and> readFile sample_world ''/etc/nfr/noif.yml'' = Inr ''noif''"
proof -
  have st: "osStat sample_world DefaultLocation = StatError True ''no such file or directory''"
    by (simp add: sample_world_def DefaultLocation_def)
  have n: "New sample_world ''/etc/nfr/noif.yml'' =
       (Some (sample_defaults\<lparr>Queries_BufferSize := 100\<rparr>), Some ErrEmptyInterface)"
    using sample_Read_noif by (simp add: New_def)
  note t = New_without_file_skips_validation
    [of sample_world True "''no such file or directory''" "''/etc/nfr/noif.yml''"
        "sample_defaults\<lparr>Queries_BufferSize := 100\<rparr>" "Some ErrEmptyInterface"]
  have d: "setDefaults sample_world Config_zero = sample_defaults"
    using t st sample_New_default by simp
  have v: "validate sample_world sample_defaults = Some ErrEmptyInterface"
    using t st d by simp
  have r: "readFile sample_world ''/etc/nfr/noif.yml'' = Inr ''noif''"
    by (simp add: sample_world_def sample_files_def)
  from st sample_New_default v n r show ?thesis by simp
qed

text \<open>
  C4. \<^verbatim>\<open>validateScopeConfig\<close> returns \<^verbatim>\<open>nil\<close> if and only if, in every group, every
  inclusion network entry parses as a CIDR, every exclude network entry parses as a CIDR
  or as a single IP address, and every exclude domain entry is a valid domain name as
  written or after stripping a leading "*.". \<^verbatim>\<open>loadScopeConfig\<close>, once the content is
  read and decoded, returns the result of that validation; when it returns an error,
  \<^verbatim>\<open>Read\<close> returns that error and no configuration; and a configuration that \<^verbatim>\<open>Read\<close>
  does return carries groups that pass validation (for a decoder that, decoding a
  document again into the groups it gave, gives them again). The resolver is built from
  the groups with the same parsers: building it fails exactly when validation fails,
  with the same error, so every error is a configuration error; for groups that pass
  validation the resolver is built and the decision for a query, taken on the groups as
  they are written, is the resolver's: it is never an error. (The parsers and
  \<^verbatim>\<open>utils.IsDomainName\<close> are parameters of the world; the resolver is modelled from the
  specification.)
\<close>

theorem scope_validation_iff:
  "(validateScopeConfig w cfg = None \<longleftrightarrow>
      (\<forall>(name, g) \<in> set (ScopeConfig_Groups cfg).
          (\<forall>n \<in> set (Networks g). parseCIDR w n \<noteq> None)
        \<and> (\<forall>n \<in> set (Exclude_Networks g). parseCIDR w n \<noteq> None \<or> parseIP w n \<noteq> None)
        \<and> (\<forall>d \<in> set (Exclude_Domains g).
              IsDomainName w d \<or> IsDomainName w (TrimPrefix d ''*.''))))
   \<and> ((if Scope_File cfg \<noteq> [] then readFile w (Scope_File cfg) else Inr defaultScope)
          = Inr content
        \<and> yamlUnmarshalScope w content (ScopeConfig_Groups cfg) = (gs, None)
       \<longrightarrow> loadScopeConfig w cfg =
             (cfg\<lparr>ScopeConfig_Groups := gs\<rparr>,
              validateScopeConfig w (cfg\<lparr>ScopeConfig_Groups := gs\<rparr>)))
   \<and> (readFile w file = Inr c \<and> yamlUnmarshalConfig w c = Inr decoded
        \<and> snd (loadScopeConfig w (decoded\<lparr>ScopeConfig_Groups := []\<rparr>)) = Some e
       \<longrightarrow> Read w file = (None, Some e))
   \<and> (Read w file' = (Some cfg', err)
        \<and> (\<forall>content gs. yamlUnmarshalScope w content [] = (gs, None) \<longrightarrow>
               yamlUnmarshalScope w content gs = (gs, None))
       \<longrightarrow> validateScopeConfig w cfg' = None)
   \<and> (buildScopeResolver w (ScopeConfig_Groups cfg) = Inl e' \<longleftrightarrow>
        validateScopeConfig w cfg = Some e')
   \<and> (decideScope w (ScopeConfig_Groups cfg) a fqdn = Inl e' \<longleftrightarrow>
        validateScopeConfig w cfg = Some e')
   \<and> (validateScopeConfig w cfg = None \<longrightarrow>
        (\<exists>resolver. buildScopeResolver w (ScopeConfig_Groups cfg) = Inr resolver
           \<and> decideScope w (ScopeConfig_Groups cfg) a fqdn = Inr (IsInScope resolver a fqdn)))"
proof (intro conjI impI)
  show "validateScopeConfig w cfg = None \<longleftrightarrow>
      (\<forall>(name, g) \<in> set (ScopeConfig_Groups cfg).
          (\<forall>n \<in> set (Networks g). parseCIDR w n \<noteq> None)
        \<and> (\<forall>n \<in> set (Exclude_Networks g). parseCIDR w n \<noteq> None \<or> parseIP w n \<noteq> None)
        \<and> (\<forall>d \<in> set (Exclude_Domains g).
              IsDomainName w d \<or> IsDomainName w (TrimPrefix d ''*.'')))"
    unfolding validateScopeConfig_def validateGroups_None validateGroup_None ..
next
  assume "(if Scope_File cfg \<noteq> [] then readFile w (Scope_File cfg) else Inr defaultScope)
          = Inr content
        \<and> yamlUnmarshalScope w content (ScopeConfig_Groups cfg) = (gs, None)"
  then show "loadScopeConfig w cfg =
             (cfg\<lparr>ScopeConfig_Groups := gs\<rparr>,
              validateScopeConfig w (cfg\<lparr>ScopeConfig_Groups := gs\<rparr>))"
    using loadScopeConfig_decoded by blast
next
  assume "readFile w file = Inr c \<and> yamlUnmarshalConfig w c = Inr decoded
        \<and> snd (loadScopeConfig w (decoded\<lparr>ScopeConfig_Groups := []\<rparr>)) = Some e"
  then show "Read w file = (None, Some e)"
    using Read_scope_error by blast
next
  assume "Read w file' = (Some cfg', err)
        \<and> (\<forall>content gs. yamlUnmarshalScope w content [] = (gs, None) \<longrightarrow>
               yamlUnmarshalScope w content gs = (gs, None))"
  then show "validateScopeConfig w cfg' = None"
    using Read_validated by blast
next
  show b: "buildScopeResolver w (ScopeConfig_Groups cfg) = Inl e' \<longleftrightarrow>
        validateScopeConfig w cfg = Some e'"
    unfolding validateScopeConfig_def by (rule buildScopeResolver_Inl)
  show "decideScope w (ScopeConfig_Groups cfg) a fqdn = Inl e' \<longleftrightarrow>
        validateScopeConfig w cfg = Some e'"
    unfolding b [symmetric] decideScope_def by (simp split: sum.splits)
next
  assume "validateScopeConfig w cfg = None"
  then obtain resolver where "buildScopeResolver w (ScopeConfig_Groups cfg) = Inr resolver"
    unfolding validateScopeConfig_def using buildScopeResolver_Inr by blast
  then show "\<exists>resolver. buildScopeResolver w (ScopeConfig_Groups cfg) = Inr resolver
           \<and> decideScope w (ScopeConfig_Groups cfg) a fqdn = Inr (IsInScope resolver a fqdn)"
    by (simp add: decideScope_def)
qed

text \<open>
  Witness for C4: the sample scope (a CIDR, an excluded CIDR, an excluded single
  address, a wildcard domain and an exact domain) is valid, its resolver is built, and
  the decisions for two queries are values; the scope file whose network is
  \<open>10.0.0.0\<close>, an address and no CIDR, makes \<^verbatim>\<open>loadScopeConfig\<close> and \<^verbatim>\<open>Read\<close> return
  the error "is not cidr", which is also the error of building a resolver from it; the
  configuration read from \<open>good.yml\<close> carries groups that pass validation.
\<close>

theorem scope_validation_iff_witness:
  "validateScopeConfig sample_world (Config_zero\<lparr>ScopeConfig_Groups := sample_scope_groups\<rparr>)
     = None
   \<and> parseCIDR sample_world ''10.0.0.0/8'' = Some (CIDR (ipv4 10 0 0 0) 8)
   \<and> parseCIDR sample_world ''10.1.0.0/16'' = Some (CIDR (ipv4 10 1 0 0) 16)
   \<and> parseIP sample_world ''10.2.0.254'' = Some (ipv4 10 2 0 254)
   \<and> IsDomainName sample_world (TrimPrefix ''*.local'' ''*.'')
   \<and> IsDomainName sample_world ''site.net''
   \<and> buildScopeResolver sample_world sample_scope_groups = Inr [sample_group_a]
   \<and> decideScope sample_world sample_scope_groups (ipv4 10 3 0 1) ''a.com'' = Inr True
   \<and> decideScope sample_world sample_scope_groups (ipv4 10 1 2 3) ''a.com'' = Inr False
   \<and> readFile sample_world ''/etc/nfr/scope-bad.yml'' = Inr sample_bad_scope_text
   \<and> yamlUnmarshalScope sample_world sample_bad_scope_text [] = (sample_bad_scope_groups, None)
   \<and> parseCIDR sample_world ''10.0.0.0'' = None
   \<and> loadScopeConfig sample_world
        (Config_zero\<lparr>Network_Interface := ''eth0'', Scope_File := ''/etc/nfr/scope-bad.yml''\<rparr>)
      = (Config_zero\<lparr>Network_Interface := ''eth0'', Scope_File := ''/etc/nfr/scope-bad.yml'',
                      ScopeConfig_Groups := sample_bad_scope_groups\<rparr>,
         Some (ErrNotCidr ''10.0.0.0''))
   \<and> Read sample_world ''/etc/nfr/badscope.yml'' = (None, Some (ErrNotCidr ''10.0.0.0''))
   \<and> decideScope sample_world sample_bad_scope_groups (ipv4 10 3 0 1) ''a.com''
       = Inl (ErrNotCidr ''10.0.0.0'')
   \<and> Read sample_world ''/etc/nfr/good.yml'' =
       (Some (sample_defaults\<lparr>Network_Interface := ''eth0''\<rparr>), None)
   \<and> validateScopeConfig sample_world (sample_defaults\<lparr>Network_Interface := ''eth0''\<rparr>) = None"
proof -
  note t = scope_validation_iff
    [of sample_world "Config_zero\<lparr>ScopeConfig_Groups := sample_scope_groups\<rparr>"
        sample_bad_scope_text sample_bad_scope_groups "''/etc/nfr/badscope.yml''" "''badscope''"
        "Config_zero\<lparr>Network_Interface := ''eth0'', Scope_File := ''/etc/nfr/scope-bad.yml''\<rparr>"
        "ErrNotCidr ''10.0.0.0''" "''/etc/nfr/good.yml''"
        "sample_defaults\<lparr>Network_Interface := ''eth0''\<rparr>" None]
  have r: "readFile sample_world ''/etc/nfr/badscope.yml'' = Inr ''badscope''"
    by (simp add: sample_world_def sample_files_def)
  have d: "yamlUnmarshalConfig sample_world ''badscope'' =
      Inr (Config_zero\<lparr>Network_Interface := ''eth0'', Scope_File := ''/etc/nfr/scope-bad.yml''\<rparr>)"
    by (simp add: sample_world_def sample_configs_def)
  have l: "snd (loadScopeConfig sample_world
      ((Config_zero\<lparr>Network_Interface := ''eth0'', Scope_File := ''/etc/nfr/scope-bad.yml''\<rparr>)
         \<lparr>ScopeConfig_Groups := []\<rparr>)) = Some (ErrNotCidr ''10.0.0.0'')"
    using sample_load_bad_scope by (simp add: Config_zero_def)
  from t r d l have rd: "Read sample_world ''/etc/nfr/badscope.yml'' =
      (None, Some (ErrNotCidr ''10.0.0.0''))"
    by blast
  from t sample_Read_good sample_decoder_stable
  have v: "validateScopeConfig sample_world (sample_defaults\<lparr>Network_Interface := ''eth0''\<rparr>)
      = None"
    by blast
  have p: "parseCIDR sample_world ''10.0.0.0/8'' = Some (CIDR (ipv4 10 0 0 0) 8)
      \<and> parseCIDR sample_world ''10.1.0.0/16'' = Some (CIDR (ipv4 10 1 0 0) 16)
      \<and> parseIP sample_world ''10.2.0.254'' = Some (ipv4 10 2 0 254)
      \<and> IsDomainName sample_world (TrimPrefix ''*.local'' ''*.'')
      \<and> IsDomainName sample_world ''site.net''
      \<and> parseCIDR sample_world ''10.0.0.0'' = None"
    by (simp add: sample_world_def TrimPrefix_def)
  have f: "readFile sample_world ''/etc/nfr/scope-bad.yml'' = Inr sample_bad_scope_text
      \<and> yamlUnmarshalScope sample_world sample_bad_scope_text [] = (sample_bad_scope_groups, None)"
    by (simp add: sample_world_def sample_files_def sample_scopeOfYAML)
  have i: "decideScope sample_world sample_scope_groups (ipv4 10 3 0 1) ''a.com'' = Inr True"
    by (simp add: decideScope_def sample_build_resolver groupInScope_def sample_group_a_def
        ipv4_def endsWith_def toLowerASCII_def)
  have x: "decideScope sample_world sample_scope_groups (ipv4 10 1 2 3) ''a.com'' = Inr False"
    by (simp add: decideScope_def sample_build_resolver groupInScope_def sample_group_a_def
        ipv4_def)
  have b: "decideScope sample_world sample_bad_scope_groups (ipv4 10 3 0 1) ''a.com''
       = Inl (ErrNotCidr ''10.0.0.0'')"
    by (simp add: decideScope_def sample_build_bad)
  from sample_validate_scope p sample_build_resolver i x f sample_load_bad_scope rd b
    sample_Read_good v
  show ?thesis by simp
qed



section \<open>The claims about the scope resolver, the buffer and the flusher\<close>

text \<open>
  C1. \<^verbatim>\<open>IsInScope\<close> is true if and only if there is a group one of whose inclusion
  networks contains the source address, none of whose exclude networks matches it (an
  exact address or a CIDR), and none of whose exclude domain patterns matches the fqdn.
  The decisions of the groups are combined by OR: the decision over two lists of groups is
  the OR of the two decisions; a query that one group does not accept and another group
  accepts is in scope; and two lists with the same groups, in any order, decide alike.
\<close>

theorem IsInScope_some_group:
  "(IsInScope gs a fqdn \<longleftrightarrow>
      (\<exists>g \<in> set gs.
          (\<exists>n \<in> set (inclusionNetworks g). cidr_contains n a)
        \<and> (\<forall>e \<in> set (excludeNetworks g). \<not> exclude_matches e a)
        \<and> (\<forall>p \<in> set (excludeDomainPatterns g). \<not> matchDomain p fqdn)))
   \<and> (IsInScope (gs @ gs') a fqdn \<longleftrightarrow> IsInScope gs a fqdn \<or> IsInScope gs' a fqdn)
   \<and> (g \<in> set gs \<and> g' \<in> set gs \<and> \<not> groupInScope g a fqdn \<and> groupInScope g' a fqdn
        \<longrightarrow> IsInScope gs a fqdn)
   \<and> (set gs = set gs' \<longrightarrow> IsInScope gs a fqdn = IsInScope gs' a fqdn)"
proof (intro conjI impI)
  show "IsInScope gs a fqdn \<longleftrightarrow>
      (\<exists>g \<in> set gs.
          (\<exists>n \<in> set (inclusionNetworks g). cidr_contains n a)
        \<and> (\<forall>e \<in> set (excludeNetworks g). \<not> exclude_matches e a)
        \<and> (\<forall>p \<in> set (excludeDomainPatterns g). \<not> matchDomain p fqdn))"
    unfolding IsInScope_iff_ex groupInScope_iff ..
next
  show "IsInScope (gs @ gs') a fqdn \<longleftrightarrow> IsInScope gs a fqdn \<or> IsInScope gs' a fqdn"
    by (rule IsInScope_append)
next
  assume "g \<in> set gs \<and> g' \<in> set gs \<and> \<not> groupInScope g a fqdn \<and> groupInScope g' a fqdn"
  then show "IsInScope gs a fqdn" unfolding IsInScope_iff_ex by blast
next
  assume "set gs = set gs'"
  then show "IsInScope gs a fqdn = IsInScope gs' a fqdn" unfolding IsInScope_iff_ex by simp
qed

text \<open>
  Witness for C1: the address 10.1.2.3 is excluded by the first sample group (10.1.0.0/16
  is among its exclude networks) and accepted by the second; the query is in scope, in
  either order of the two groups.
\<close>

theorem IsInScope_some_group_witness:
  "sample_group_a \<in> set [sample_group_a, sample_group_b]
   \<and> sample_group_b \<in> set [sample_group_a, sample_group_b]
   \<and> \<not> groupInScope sample_group_a (ipv4 10 1 2 3) ''a.com''
   \<and> groupInScope sample_group_b (ipv4 10 1 2 3) ''a.com''
   \<and> set [sample_group_a, sample_group_b] = set [sample_group_b, sample_group_a]
   \<and> IsInScope [sample_group_a, sample_group_b] (ipv4 10 1 2 3) ''a.com''
   \<and> IsInScope [sample_group_b, sample_group_a] (ipv4 10 1 2 3) ''a.com''"
proof -
  note t = IsInScope_some_group
    [of "[sample_group_a, sample_group_b]" "ipv4 10 1 2 3" "''a.com''"
        "[sample_group_b, sample_group_a]" sample_group_a sample_group_b]
  have s: "set [sample_group_a, sample_group_b] = set [sample_group_b, sample_group_a]"
    by auto
  from t sample_group_a_excludes sample_group_b_includes
  have i: "IsInScope [sample_group_a, sample_group_b] (ipv4 10 1 2 3) ''a.com''"
    by simp
  with t s have "IsInScope [sample_group_b, sample_group_a] (ipv4 10 1 2 3) ''a.com''"
    by blast
  with i s sample_group_a_excludes sample_group_b_includes show ?thesis by simp
qed

text \<open>
  C2. An exact pattern matches the strings that are identical to it up to ASCII case,
  character by character, and no other; a wildcard pattern \<open>*.suffix\<close> matches an fqdn
  exactly when the fqdn is the suffix or ends with "." followed by the suffix. In
  particular \<open>*.local\<close> matches \<open>a.local\<close> and \<open>a.b.local\<close> and not
  \<open>locals\<close>, and the exact pattern \<open>site.net\<close> matches \<open>site.net\<close> and only the
  strings that are \<open>site.net\<close> in lower case (not \<open>a.site.net\<close>, not
  \<open>site.net.org\<close>).
\<close>

theorem matchDomain_rule:
  "(matchDomain (Exact d) fqdn \<longleftrightarrow>
      list_all2 (\<lambda>c c'. toLowerASCII c = toLowerASCII c') fqdn d)
   \<and> (matchDomain (Wildcard suffix) fqdn \<longleftrightarrow>
        fqdn = suffix \<or> (\<exists>pre. fqdn = pre @ ''.'' @ suffix))
   \<and> parsePattern (''*.'' @ suffix) = Wildcard suffix
   \<and> matchDomain (parsePattern ''*.local'') ''a.local''
   \<and> matchDomain (parsePattern ''*.local'') ''a.b.local''
   \<and> \<not> matchDomain (parsePattern ''*.local'') ''locals''
   \<and> matchDomain (parsePattern ''site.net'') ''site.net''
   \<and> (matchDomain (parsePattern ''site.net'') fqdn \<longleftrightarrow> map toLowerASCII fqdn = ''site.net'')
   \<and> \<not> matchDomain (parsePattern ''site.net'') ''a.site.net''
   \<and> \<not> matchDomain (parsePattern ''site.net'') ''site.net.org''"
proof (intro conjI)
  show "matchDomain (Exact d) fqdn \<longleftrightarrow>
      list_all2 (\<lambda>c c'. toLowerASCII c = toLowerASCII c') fqdn d"
    by (simp add: map_eq_iff_list_all2)
  show "matchDomain (Wildcard suffix) fqdn \<longleftrightarrow>
        fqdn = suffix \<or> (\<exists>pre. fqdn = pre @ ''.'' @ suffix)"
    by (simp add: endsWith_iff)
  show "parsePattern (''*.'' @ suffix) = Wildcard suffix" by simp
  show "matchDomain (parsePattern ''*.local'') ''a.local''" by (simp add: endsWith_def)
  show "matchDomain (parsePattern ''*.local'') ''a.b.local''" by (simp add: endsWith_def)
  show "\<not> matchDomain (parsePattern ''*.local'') ''locals''" by (simp add: endsWith_def)
  show "matchDomain (parsePattern ''site.net'') ''site.net''" by (simp add: toLowerASCII_def)
  show "matchDomain (parsePattern ''site.net'') fqdn \<longleftrightarrow> map toLowerASCII fqdn = ''site.net''"
    by (simp add: toLowerASCII_def)
  show "\<not> matchDomain (parsePattern ''site.net'') ''a.site.net''"
    by (simp add: toLowerASCII_def)
  show "\<not> matchDomain (parsePattern ''site.net'') ''site.net.org''"
    by (simp add: toLowerASCII_def)
qed

text \<open>
  C3. If no inclusion network of any group contains the address, \<^verbatim>\<open>IsInScope\<close> is
  false, whatever the fqdn and the exclusions.
\<close>

theorem no_inclusion_network_out_of_scope:
  assumes "\<forall>g \<in> set gs. \<forall>n \<in> set (inclusionNetworks g). \<not> cidr_contains n a"
  shows "\<not> IsInScope gs a fqdn"
  using assms unfolding IsInScope_iff_ex groupInScope_iff by blast

text \<open>
  Witness for C3, the scenario of the specification: with the group \<open>default\<close>
  (inclusion 10.0.0.0/8, exclude domain \<open>*.local\<close>) the query of 192.168.1.1 for
  \<open>a.com\<close> is out of scope, since no group includes the address; the query of
  10.1.2.3 for \<open>a.com\<close> is in scope and the one for \<open>a.local\<close> is not.
\<close>

theorem no_inclusion_network_out_of_scope_witness:
  "inclusionNetworks sample_group_default = [CIDR (ipv4 10 0 0 0) 8]
   \<and> \<not> cidr_contains (CIDR (ipv4 10 0 0 0) 8) (ipv4 192 168 1 1)
   \<and> \<not> IsInScope [sample_group_default] (ipv4 192 168 1 1) ''a.com''
   \<and> IsInScope [sample_group_default] (ipv4 10 1 2 3) ''a.com''
   \<and> \<not> IsInScope [sample_group_default] (ipv4 10 1 2 3) ''a.local''"
proof -
  have n: "inclusionNetworks sample_group_default = [CIDR (ipv4 10 0 0 0) 8]"
    by (simp add: sample_group_default_def)
  have c: "\<not> cidr_contains (CIDR (ipv4 10 0 0 0) 8) (ipv4 192 168 1 1)"
    by (simp add: ipv4_def)
  from n c have h: "\<forall>g \<in> set [sample_group_default].
      \<forall>n \<in> set (inclusionNetworks g). \<not> cidr_contains n (ipv4 192 168 1 1)"
    by simp
  have i: "IsInScope [sample_group_default] (ipv4 10 1 2 3) ''a.com''"
    by (simp add: groupInScope_def sample_group_default_def ipv4_def endsWith_def)
  have e: "\<not> IsInScope [sample_group_default] (ipv4 10 1 2 3) ''a.local''"
    by (simp add: groupInScope_def sample_group_default_def ipv4_def endsWith_def)
  from no_inclusion_network_out_of_scope [OF h, of "''a.com''"] n c i e show ?thesis
    by blast
qed



text \<open>
  C6. Pushing exactly \<^verbatim>\<open>BufferSize\<close> queries into an empty buffer triggers exactly one
  flush, whose batch is the queries pushed, in the order of the pushes, and leaves the
  buffer empty; after any smaller number of these pushes no flush has been triggered and
  the buffer holds the queries pushed so far. The capacity is positive (a validated
  \<^verbatim>\<open>BufferSize\<close> is at least 64, the default is 65535).
\<close>

theorem push_BufferSize_flushes_once:
  assumes "buffered b = []" and "0 < capacity b" and "length qs = capacity b"
  shows "pushAll b qs = (b, [qs])
       \<and> (\<forall>k < length qs. pushAll b (take k qs) = (b\<lparr>buffered := take k qs\<rparr>, []))"
proof
  from assms(2,3) have "qs \<noteq> []" by auto
  moreover have "length (buffered b) + length qs = capacity b" using assms(1,3) by simp
  ultimately have "pushAll b qs = (b\<lparr>buffered := []\<rparr>, [buffered b @ qs])"
    by (rule pushAll_reaches)
  then show "pushAll b qs = (b, [qs])" using assms(1) by simp
next
  show "\<forall>k < length qs. pushAll b (take k qs) = (b\<lparr>buffered := take k qs\<rparr>, [])"
  proof (intro allI impI)
    fix k assume "k < length qs"
    then have "length (buffered b) + length (take k qs) < capacity b"
      using assms(1,3) by simp
    then have "pushAll b (take k qs) = (b\<lparr>buffered := buffered b @ take k qs\<rparr>, [])"
      by (rule pushAll_below)
    then show "pushAll b (take k qs) = (b\<lparr>buffered := take k qs\<rparr>, [])"
      using assms(1) by simp
  qed
qed

text \<open>
  Witness for C6: three queries pushed into an empty buffer of capacity three give one
  batch of the three queries, in order; the first two pushes trigger no flush.
\<close>

theorem push_BufferSize_flushes_once_witness:
  "buffered \<lparr>buffered = [], capacity = 3\<rparr> = []
   \<and> 0 < capacity \<lparr>buffered = [], capacity = 3\<rparr>
   \<and> length [sample_query 1, sample_query 2, sample_query 3]
       = capacity \<lparr>buffered = [], capacity = 3\<rparr>
   \<and> pushAll \<lparr>buffered = [], capacity = 3\<rparr> [sample_query 1, sample_query 2, sample_query 3]
       = (\<lparr>buffered = [], capacity = 3\<rparr>,
          [[sample_query 1, sample_query 2, sample_query 3]])
   \<and> pushAll \<lparr>buffered = [], capacity = 3\<rparr> [sample_query 1, sample_query 2]
       = (\<lparr>buffered = [sample_query 1, sample_query 2], capacity = 3\<rparr>, [])"
proof -
  have h1: "buffered \<lparr>buffered = [], capacity = 3\<rparr> = []" by simp
  have h2: "0 < capacity \<lparr>buffered = [], capacity = 3\<rparr>" by simp
  have h3: "length [sample_query 1, sample_query 2, sample_query 3]
       = capacity \<lparr>buffered = [], capacity = 3\<rparr>" by simp
  note t = push_BufferSize_flushes_once [OF h1 h2 h3]
  from t have full: "pushAll \<lparr>buffered = [], capacity = 3\<rparr>
        [sample_query 1, sample_query 2, sample_query 3]
       = (\<lparr>buffered = [], capacity = 3\<rparr>,
          [[sample_query 1, sample_query 2, sample_query 3]])"
    by simp
  from t have "(2::nat) < length [sample_query 1, sample_query 2, sample_query 3] \<longrightarrow>
      pushAll \<lparr>buffered = [], capacity = 3\<rparr>
        (take 2 [sample_query 1, sample_query 2, sample_query 3])
       = (\<lparr>buffered = [], capacity = 3\<rparr>
            \<lparr>buffered := take 2 [sample_query 1, sample_query 2, sample_query 3]\<rparr>, [])"
    by blast
  then have part: "pushAll \<lparr>buffered = [], capacity = 3\<rparr> [sample_query 1, sample_query 2]
       = (\<lparr>buffered = [sample_query 1, sample_query 2], capacity = 3\<rparr>, [])"
    by (simp add: numeral_2_eq_2)
  from h1 h2 h3 full part show ?thesis by simp
qed

end
